theory Spec2Isabelle
  imports Main "HOL-Library.Sublist"
begin

section \<open>The upgrade coordinator of mycroft-skills-kit\<close>

text \<open>
  The two source files, \<^verbatim>\<open>msk/actions/upgrade.py\<close> (class \<^verbatim>\<open>UpgradeAction\<close>) and
  \<^verbatim>\<open>msk/repo_action.py\<close> (classes \<^verbatim>\<open>RepoData\<close> and \<^verbatim>\<open>SkillData\<close>), drive three
  collaborators they do not implement: the git command line (through GitPython), the
  skills manager \<^verbatim>\<open>msm\<close> and the GitHub API (through PyGithub).  The embedding keeps
  the collaborators abstract: every command sent to one of them is appended to a log,
  and its answer is read from an environment that may look at the whole log so far.
  The Python functions become functions on that log, in a state-and-exception monad.
\<close>

subsection \<open>Strings\<close>

text \<open>Python's \<^verbatim>\<open>s.split('\n')\<close>: never the empty list, the empty string gives \<^verbatim>\<open>['']\<close>.\<close>

fun split_on :: "char \<Rightarrow> string \<Rightarrow> string list" where
  "split_on c [] = [[]]"
| "split_on c (x # xs) =
     (if x = c then [] # split_on c xs
      else (case split_on c xs of
              [] \<Rightarrow> [[x]]
            | w # ws \<Rightarrow> (x # w) # ws))"

text \<open>Python's \<^verbatim>\<open>sep.join(items)\<close>.\<close>

fun join_with :: "string \<Rightarrow> string list \<Rightarrow> string" where
  "join_with sep [] = []"
| "join_with sep [x] = x"
| "join_with sep (x # y # ys) = x @ sep @ join_with sep (y # ys)"

text \<open>Python's \<^verbatim>\<open>sub in s\<close> on strings: \<open>sub\<close> occurs in \<open>s\<close> as a contiguous run.\<close>

fun contains :: "string \<Rightarrow> string \<Rightarrow> bool" where
  "contains sub [] = (sub = [])"
| "contains sub (x # xs) = (prefix sub (x # xs) \<or> contains sub xs)"

text \<open>\<^verbatim>\<open>os.path.join(a, b)\<close> on a POSIX system, for two components.\<close>

definition path_join :: "string \<Rightarrow> string \<Rightarrow> string" where
  "path_join a b =
     (if b \<noteq> [] \<and> hd b = CHR ''/'' then b
      else if a = [] \<or> last a = CHR ''/'' then a @ b
      else a @ ''/'' @ b)"

subsection \<open>Data\<close>

text \<open>A row of \<^verbatim>\<open>SkillRepo.get_skill_data()\<close>: name, submodule path, url, sha.\<close>

type_synonym skill_row = "string \<times> string \<times> string \<times> string"

text \<open>The fields of msm's \<^verbatim>\<open>SkillEntry\<close> that the two files read.\<close>

record skill_entry =
  name :: string
  url :: string
  author :: string
  sha :: string

text \<open>The PyGithub objects, with the attributes the code reads.\<close>

record repository =
  full_name :: string
  default_branch :: string
  repo_html_url :: string

record github_user =
  login :: string

text \<open>A pull request without a description has \<^verbatim>\<open>body\<close> \<^verbatim>\<open>None\<close>.\<close>

record pull_request =
  number :: nat
  title :: string
  body :: "string option"
  pull_html_url :: string

text \<open>The exceptions of \<^verbatim>\<open>msk.exceptions\<close> that the code raises, each with its message,
  the failures of the two libraries, and Python's \<^verbatim>\<open>TypeError\<close>.\<close>

datatype exn =
    NotUploaded string
  | AlreadyUpdated string
  | PRModified string
  | GitCommandError
  | GithubException
  | TypeError

text \<open>The git commands the code issues through a \<^verbatim>\<open>Git(working_dir)\<close> object.\<close>

datatype git_cmd =
    Reset                      \<comment> \<open>\<^verbatim>\<open>git.reset()\<close>\<close>
  | Fetch                      \<comment> \<open>\<^verbatim>\<open>git.fetch()\<close>\<close>
  | SymbolicRef string         \<comment> \<open>\<^verbatim>\<open>git.symbolic_ref(ref)\<close>\<close>
  | ResetHard string           \<comment> \<open>\<^verbatim>\<open>git.reset(ref, hard=True)\<close>\<close>
  | BranchDelete string        \<comment> \<open>\<^verbatim>\<open>git.branch('-D', name)\<close>\<close>
  | CheckoutNew string         \<comment> \<open>\<^verbatim>\<open>git.checkout(b=name)\<close>\<close>
  | Checkout string            \<comment> \<open>\<^verbatim>\<open>git.checkout(name)\<close>\<close>
  | Diff string                \<comment> \<open>\<^verbatim>\<open>git.diff(path)\<close>\<close>
  | LsFiles string             \<comment> \<open>\<^verbatim>\<open>git.ls_files(path)\<close>\<close>
  | Add string                 \<comment> \<open>\<^verbatim>\<open>git.add(path)\<close>\<close>
  | Commit string              \<comment> \<open>\<^verbatim>\<open>git.commit(message=m)\<close>\<close>
  | SubmoduleUpdateInit string \<comment> \<open>\<^verbatim>\<open>git.submodule('update', '--init', path)\<close>\<close>
  | RevListAncestryPath string \<comment> \<open>\<^verbatim>\<open>git.rev_list('--ancestry-path', range)\<close>\<close>
  | ShowSubject string         \<comment> \<open>\<^verbatim>\<open>git.show('-s', sha, format='%s')\<close>\<close>
  | Remote                     \<comment> \<open>\<^verbatim>\<open>git.remote()\<close>\<close>
  | RemoteCmd string string string \<comment> \<open>\<^verbatim>\<open>git.remote(command, name, url)\<close>\<close>

text \<open>Everything the code asks of the outside, in the order it is asked.\<close>

datatype call =
    Git string git_cmd                   \<comment> \<open>working directory, command\<close>
  | MsmUpdate                            \<comment> \<open>\<^verbatim>\<open>SkillRepo.update()\<close>\<close>
  | AskForGithubCredentials              \<comment> \<open>\<^verbatim>\<open>ask_for_github_credentials()\<close>\<close>
  | GetRepo string                       \<comment> \<open>\<^verbatim>\<open>github.get_repo(full_name)\<close>\<close>
  | GetUser                              \<comment> \<open>\<^verbatim>\<open>github.get_user()\<close>\<close>
  | CreateFork string                    \<comment> \<open>\<^verbatim>\<open>user.create_fork(repo)\<close>\<close>
  | GetPulls string string string        \<comment> \<open>repository, base, head\<close>
  | CreatePull string string string string string \<comment> \<open>repository, title, body, base, head\<close>
  | PullEdit nat string string           \<comment> \<open>\<^verbatim>\<open>pull.edit(title, body)\<close> on the pull of that number\<close>
  | GetCommit string string              \<comment> \<open>repository, sha\<close>
  | Chdir string                         \<comment> \<open>\<^verbatim>\<open>os.chdir(path)\<close>\<close>
  | GitPushForce string                  \<comment> \<open>\<^verbatim>\<open>call(['git', 'push', '-u', 'fork', branch, '--force'])\<close>\<close>
  | Print string                         \<comment> \<open>a line written to standard output\<close>

text \<open>
  The environment: what each collaborator answers, given the calls made so far.
  A git command answers with its standard output, or fails with \<^verbatim>\<open>GitCommandError\<close>
  (\<open>None\<close>); a GitHub request answers with an object, or fails (\<open>None\<close>).
  \<open>version\<close> is \<^verbatim>\<open>msk.__version__\<close> and \<open>extract_repo_name\<close> the method of that name of
  msm's \<^verbatim>\<open>SkillEntry\<close>; neither is defined in the two files, so both are parameters.
  So is \<open>expand_path\<close>, by which GitPython turns the path given to \<^verbatim>\<open>Git(path)\<close> into
  the object's \<^verbatim>\<open>working_dir\<close> (home and variables expanded, made absolute against the
  current directory, normalised).
\<close>

record env =
  repo_path :: string
  get_skill_data :: "call list \<Rightarrow> skill_row list"
  git_out :: "call list \<Rightarrow> string \<Rightarrow> git_cmd \<Rightarrow> string option"
  get_repo_out :: "call list \<Rightarrow> string \<Rightarrow> repository option"
  get_user_out :: "call list \<Rightarrow> github_user option"
  create_fork_out :: "call list \<Rightarrow> string \<Rightarrow> repository option"
  get_pulls_out :: "call list \<Rightarrow> string \<Rightarrow> string \<Rightarrow> string \<Rightarrow> pull_request list option"
  create_pull_out ::
    "call list \<Rightarrow> string \<Rightarrow> string \<Rightarrow> string \<Rightarrow> string \<Rightarrow> string \<Rightarrow> pull_request option"
  pull_edit_out :: "call list \<Rightarrow> nat \<Rightarrow> string \<Rightarrow> string \<Rightarrow> bool"
  get_commit_out :: "call list \<Rightarrow> string \<Rightarrow> string \<Rightarrow> string option"
  extract_repo_name :: "string \<Rightarrow> string"
  version :: string
  expand_path :: "string \<Rightarrow> string"

text \<open>
  The state a run threads through: the log of calls, and the cell of the lazy attribute
  \<^verbatim>\<open>SkillData.submodule_name\<close>.
\<close>

record state =
  calls :: "call list"
  submodule_name_cell :: "string option"

subsection \<open>Exceptions and sequencing\<close>

type_synonym 'a action = "state \<Rightarrow> (exn + 'a) \<times> state"

definition ret :: "'a \<Rightarrow> 'a action" where
  "ret x st = (Inr x, st)"

definition raise :: "exn \<Rightarrow> 'a action" where
  "raise e st = (Inl e, st)"

definition seq :: "'a action \<Rightarrow> ('a \<Rightarrow> 'b action) \<Rightarrow> 'b action" where
  "seq m f st = (case m st of (Inl e, st') \<Rightarrow> (Inl e, st') | (Inr x, st') \<Rightarrow> f x st')"

definition record_call :: "call \<Rightarrow> state \<Rightarrow> state" where
  "record_call c st = st\<lparr>calls := calls st @ [c]\<rparr>"

text \<open>One git command: logged, then its output returned or \<^verbatim>\<open>GitCommandError\<close> raised.\<close>

definition git :: "env \<Rightarrow> string \<Rightarrow> git_cmd \<Rightarrow> string action" where
  "git E dir cmd st =
     (case git_out E (calls st) dir cmd of
        None \<Rightarrow> (Inl GitCommandError, record_call (Git dir cmd) st)
      | Some out \<Rightarrow> (Inr out, record_call (Git dir cmd) st))"

text \<open>\<^verbatim>\<open>with suppress(GitCommandError): m\<close>.\<close>

definition suppress_git_error :: "'a action \<Rightarrow> unit action" where
  "suppress_git_error m st =
     (case m st of
        (Inl GitCommandError, st') \<Rightarrow> (Inr (), st')
      | (Inl e, st') \<Rightarrow> (Inl e, st')
      | (Inr _, st') \<Rightarrow> (Inr (), st'))"

text \<open>A call that cannot fail in the model: logged, nothing returned.\<close>

definition effect :: "call \<Rightarrow> unit action" where
  "effect c st = (Inr (), record_call c st)"

text \<open>A GitHub request: logged, then its answer returned or \<^verbatim>\<open>GithubException\<close> raised.\<close>

definition request :: "call \<Rightarrow> (call list \<Rightarrow> 'a option) \<Rightarrow> 'a action" where
  "request c answer st =
     (case answer (calls st) of
        None \<Rightarrow> (Inl GithubException, record_call c st)
      | Some x \<Rightarrow> (Inr x, record_call c st))"

subsection \<open>\<^verbatim>\<open>Git\<close> objects\<close>

text \<open>
  A \<^verbatim>\<open>Git\<close> object is identified by its \<^verbatim>\<open>working_dir\<close>, where its commands run.  Both
  files build two of them: \<^verbatim>\<open>Git(repo.path)\<close> for the registry (upgrade.py line 45,
  repo\_action.py line 16) and \<^verbatim>\<open>Git(join(repo.path, submodule_path))\<close> for the plugin's
  submodule inside it (upgrade.py line 47, repo\_action.py line 43).
\<close>

definition registry_git :: "env \<Rightarrow> string" where
  "registry_git E = expand_path E (repo_path E)"

definition submodule_git :: "env \<Rightarrow> string \<Rightarrow> string" where
  "submodule_git E submodule_path = expand_path E (path_join (repo_path E) submodule_path)"

subsection \<open>Resolving the submodule path\<close>

text \<open>
  \<^verbatim>\<open>{name: path for name, path, url, sha in rows}\<close>: rows are entered left to right, so a
  later row of the same name replaces an earlier one.
\<close>

fun add_row :: "skill_row \<Rightarrow> (string \<rightharpoonup> string) \<Rightarrow> (string \<rightharpoonup> string)" where
  "add_row (n, p, u, s) m = m(n \<mapsto> p)"

definition name_to_path :: "skill_row list \<Rightarrow> (string \<rightharpoonup> string)" where
  "name_to_path rows = fold add_row rows Map.empty"

definition not_uploaded_message :: "string \<Rightarrow> string" where
  "not_uploaded_message n =
     ''The skill '' @ n @ '' has not yet been uploaded to the skill store''"

text \<open>\<^verbatim>\<open>UpgradeAction.find_submodule_path\<close> (upgrade.py, lines 34-40).\<close>

definition find_submodule_path :: "env \<Rightarrow> skill_entry \<Rightarrow> string action" where
  "find_submodule_path E skill st =
     (case name_to_path (get_skill_data E (calls st)) (name skill) of
        None \<Rightarrow> raise (NotUploaded (not_uploaded_message (name skill))) st
      | Some p \<Rightarrow> ret p st)"

text \<open>The function that \<^verbatim>\<open>@Lazy\<close> decorates at repo\_action.py, lines 47-54.\<close>

definition submodule_name_func :: "env \<Rightarrow> skill_entry \<Rightarrow> string action" where
  "submodule_name_func E entry st =
     (case name_to_path (get_skill_data E (calls st)) (name entry) of
        None \<Rightarrow> raise (NotUploaded (not_uploaded_message (name entry))) st
      | Some p \<Rightarrow> ret p st)"

text \<open>
  Modelled from the spec: \<^verbatim>\<open>msk.lazy.Lazy\<close> is not among the source files.  The spec
  calls these attributes "lazily-memoized", "cached after first access": the first
  access that returns a value stores it, later accesses return the stored value
  without running the function, and an access that raises stores nothing.
\<close>

definition submodule_name :: "env \<Rightarrow> skill_entry \<Rightarrow> string action" where
  "submodule_name E entry st =
     (case submodule_name_cell st of
        Some v \<Rightarrow> (Inr v, st)
      | None \<Rightarrow>
         (case submodule_name_func E entry st of
            (Inl e, st') \<Rightarrow> (Inl e, st')
          | (Inr v, st') \<Rightarrow> (Inr v, st'\<lparr>submodule_name_cell := Some v\<rparr>)))"

subsection \<open>\<^verbatim>\<open>UpgradeAction\<close> (upgrade.py)\<close>

definition upgrade_branch_name :: "string \<Rightarrow> string" where
  "upgrade_branch_name n = ''upgrade/'' @ n"

definition upgrade_title :: "string \<Rightarrow> string" where
  "upgrade_title n = ''Upgrade '' @ n"

definition already_updated_message :: "string \<Rightarrow> string" where
  "already_updated_message n =
     ''The latest version of '' @ n @ '' is already uploaded to the skill repo''"

text \<open>\<^verbatim>\<open>load_git_repos\<close> (lines 42-48); the pair returned is
  (\<^verbatim>\<open>repo_git\<close>, \<^verbatim>\<open>skill_git\<close>).\<close>

definition load_git_repos :: "env \<Rightarrow> skill_entry \<Rightarrow> (string \<times> string) action" where
  "load_git_repos E skill =
     seq (find_submodule_path E skill) (\<lambda>submodule_path.
     seq (git E (registry_git E) (SubmoduleUpdateInit submodule_path)) (\<lambda>_.
     ret (registry_git E, submodule_git E submodule_path)))"

text \<open>\<^verbatim>\<open>perform_local_upgrade\<close> (lines 50-67); \<^verbatim>\<open>skill_git.working_dir\<close> is the
  \<^verbatim>\<open>skill_git\<close> of the model.\<close>

definition perform_local_upgrade ::
  "env \<Rightarrow> skill_entry \<Rightarrow> string \<Rightarrow> string \<Rightarrow> string action" where
  "perform_local_upgrade E skill repo_git skill_git =
     seq (git E repo_git Reset) (\<lambda>_.
     seq (git E skill_git Fetch) (\<lambda>_.
     seq (git E skill_git (SymbolicRef ''refs/remotes/origin/HEAD'')) (\<lambda>default_branch.
     seq (git E skill_git (ResetHard default_branch)) (\<lambda>_.
     seq (suppress_git_error
            (git E repo_git (BranchDelete (upgrade_branch_name (name skill))))) (\<lambda>_.
     seq (git E repo_git (CheckoutNew (upgrade_branch_name (name skill)))) (\<lambda>_.
     seq (git E repo_git (Diff skill_git)) (\<lambda>d.
     if d = [] then raise (AlreadyUpdated (already_updated_message (name skill)))
     else
     seq (git E repo_git (Add skill_git)) (\<lambda>_.
     seq (git E repo_git (Commit (upgrade_title (name skill)))) (\<lambda>_.
     ret (upgrade_branch_name (name skill)))))))))))"

text \<open>
  The generator expression of \<^verbatim>\<open>create_pr_message\<close> (lines 74-80): for each sha in
  turn, the subject line is read with \<^verbatim>\<open>git show\<close>, then the commit is looked up on
  GitHub for its \<^verbatim>\<open>html_url\<close>, and the bullet is formatted.
\<close>

definition bullet :: "string \<Rightarrow> string \<Rightarrow> string" where
  "bullet subject link = '' - ['' @ subject @ '']('' @ link @ '')''"

fun bullets :: "env \<Rightarrow> string \<Rightarrow> repository \<Rightarrow> string list \<Rightarrow> string list action" where
  "bullets E skill_git skill_repo [] = ret []"
| "bullets E skill_git skill_repo (s # shas) =
     seq (git E skill_git (ShowSubject s)) (\<lambda>subject.
     seq (request (GetCommit (full_name skill_repo) s)
            (\<lambda>h. get_commit_out E h (full_name skill_repo) s)) (\<lambda>link.
     seq (bullets E skill_git skill_repo shas) (\<lambda>bs.
     ret (bullet subject link # bs))))"

definition pr_header :: "string \<Rightarrow> string" where
  "pr_header n = ''This upgrades '' @ n @ '' to include the following new commits:\<newline>\<newline>''"

definition pr_footer :: "string \<Rightarrow> string" where
  "pr_footer v =
     ''\<newline>\<newline><sub>Created with [mycroft-skills-kit]('' @
     ''https://github.com/mycroftai/mycroft-skills-kit'' @ '') v'' @ v @ ''</sub>''"

text \<open>\<^verbatim>\<open>create_pr_message\<close> (lines 69-86): the pair (title, body).\<close>

definition create_pr_message ::
  "env \<Rightarrow> skill_entry \<Rightarrow> string \<Rightarrow> repository \<Rightarrow> (string \<times> string) action" where
  "create_pr_message E skill skill_git skill_repo =
     seq (git E skill_git (RevListAncestryPath (sha skill @ ''..'' @ ''HEAD''))) (\<lambda>out.
     seq (bullets E skill_git skill_repo (split_on CHR ''\<newline>'' out)) (\<lambda>bs.
     ret (upgrade_title (name skill),
          pr_header (name skill) @ join_with ''\<newline>'' bs @ pr_footer (version E))))"

text \<open>\<^verbatim>\<open>setup_fork\<close> (lines 88-93).\<close>

definition setup_fork :: "env \<Rightarrow> string \<Rightarrow> github_user \<Rightarrow> repository \<Rightarrow> unit action" where
  "setup_fork E repo_git user skills_repo =
     seq (request (CreateFork (full_name skills_repo))
            (\<lambda>h. create_fork_out E h (full_name skills_repo))) (\<lambda>fork.
     seq (git E repo_git Remote) (\<lambda>out.
     seq (git E repo_git
            (RemoteCmd (if ''fork'' \<in> set (split_on CHR ''\<newline>'' out) then ''set-url'' else ''add'')
               ''fork'' (repo_html_url fork))) (\<lambda>_.
     ret ())))"

text \<open>\<^verbatim>\<open>load_skill_repo\<close> (lines 95-100).\<close>

definition load_skill_repo :: "env \<Rightarrow> skill_entry \<Rightarrow> repository action" where
  "load_skill_repo E skill =
     request (GetRepo (author skill @ ''/'' @ extract_repo_name E (url skill)))
       (\<lambda>h. get_repo_out E h (author skill @ ''/'' @ extract_repo_name E (url skill)))"

text \<open>The substring \<^verbatim>\<open>create_or_edit_pr\<close> looks for in the body of an existing pull request.\<close>

definition marker :: string where
  "marker = ''mycroft-skills-kit''"

definition pr_modified_message :: string where
  "pr_modified_message = ''Not updating description since it was not autogenerated''"

text \<open>
  \<^verbatim>\<open>pull.edit(title, body)\<close>: PyGithub sends the request and, when it succeeds, updates the
  object's attributes.
\<close>

definition pull_edit :: "env \<Rightarrow> pull_request \<Rightarrow> string \<Rightarrow> string \<Rightarrow> pull_request action" where
  "pull_edit E pull t b st =
     (if pull_edit_out E (calls st) (number pull) t b
      then (Inr (pull\<lparr>title := t, body := Some b\<rparr>),
            record_call (PullEdit (number pull) t b) st)
      else (Inl GithubException, record_call (PullEdit (number pull) t b) st))"

text \<open>\<^verbatim>\<open>create_or_edit_pr\<close> (lines 102-115).  At line 109,
  \<^verbatim>\<open>'mycroft-skills-kit' in pull.body\<close> raises \<^verbatim>\<open>TypeError\<close> when the body is \<^verbatim>\<open>None\<close>.\<close>

definition create_or_edit_pr ::
  "env \<Rightarrow> string \<Rightarrow> string \<Rightarrow> repository \<Rightarrow> github_user \<Rightarrow> string \<Rightarrow> pull_request action" where
  "create_or_edit_pr E t b skills_repo user upgrade_branch =
     seq (request
            (GetPulls (full_name skills_repo) (default_branch skills_repo)
               (login user @ '':'' @ upgrade_branch))
            (\<lambda>h. get_pulls_out E h (full_name skills_repo) (default_branch skills_repo)
               (login user @ '':'' @ upgrade_branch))) (\<lambda>pulls.
     case pulls of
       pull # _ \<Rightarrow>
         (case body pull of
            None \<Rightarrow> raise TypeError
          | Some text \<Rightarrow>
              if contains marker text then pull_edit E pull t b
              else raise (PRModified pr_modified_message))
     | [] \<Rightarrow>
         request
           (CreatePull (full_name skills_repo) t b (default_branch skills_repo)
              (login user @ '':'' @ upgrade_branch))
           (\<lambda>h. create_pull_out E h (full_name skills_repo) t b (default_branch skills_repo)
              (login user @ '':'' @ upgrade_branch)))"

text \<open>\<^verbatim>\<open>push_to_fork\<close> (lines 117-121); \<^verbatim>\<open>subprocess.call\<close> returns the exit status, which
  the code drops.\<close>

definition push_to_fork :: "env \<Rightarrow> string \<Rightarrow> unit action" where
  "push_to_fork E upgrade_branch =
     seq (effect (Chdir (repo_path E))) (\<lambda>_.
     effect (GitPushForce upgrade_branch))"

text \<open>\<^verbatim>\<open>perform\<close> (lines 123-141).\<close>

definition perform :: "env \<Rightarrow> skill_entry \<Rightarrow> unit action" where
  "perform E skill =
     seq (effect MsmUpdate) (\<lambda>_.
     seq (load_git_repos E skill) (\<lambda>(repo_git, skill_git).
     seq (perform_local_upgrade E skill repo_git skill_git) (\<lambda>upgrade_branch.
     seq (effect AskForGithubCredentials) (\<lambda>_.
     seq (request (GetRepo ''MycroftAI/mycroft-skills'')
            (\<lambda>h. get_repo_out E h ''MycroftAI/mycroft-skills'')) (\<lambda>skills_repo.
     seq (request GetUser (get_user_out E)) (\<lambda>user.
     seq (setup_fork E repo_git user skills_repo) (\<lambda>_.
     seq (push_to_fork E upgrade_branch) (\<lambda>_.
     seq (load_skill_repo E skill) (\<lambda>skill_repo.
     seq (create_pr_message E skill skill_git skill_repo) (\<lambda>(t, b).
     seq (effect (Print [])) (\<lambda>_.
     seq (effect (Print (''=== '' @ t @ '' ===''))) (\<lambda>_.
     seq (effect (Print b)) (\<lambda>_.
     seq (effect (Print [])) (\<lambda>_.
     seq (create_or_edit_pr E t b skills_repo user upgrade_branch) (\<lambda>pull.
     effect (Print (''Created PR at: '' @ pull_html_url pull)))))))))))))))))"

subsection \<open>\<^verbatim>\<open>RepoData\<close> and \<^verbatim>\<open>SkillData\<close> (repo\_action.py)\<close>

text \<open>\<^verbatim>\<open>try: m except GitCommandError: h\<close>.\<close>

definition except_git_error :: "'a action \<Rightarrow> 'a action \<Rightarrow> 'a action" where
  "except_git_error m h st =
     (case m st of
        (Inl GitCommandError, st') \<Rightarrow> h st'
      | (Inl e, st') \<Rightarrow> (Inl e, st')
      | (Inr x, st') \<Rightarrow> (Inr x, st'))"

text \<open>\<^verbatim>\<open>RepoData.checkout_branch\<close> (lines 28-34); \<^verbatim>\<open>RepoData.git\<close> is
  \<^verbatim>\<open>Git(msminfo.path)\<close>, the registry's \<^verbatim>\<open>Git\<close> object.\<close>

definition checkout_branch :: "env \<Rightarrow> string \<Rightarrow> unit action" where
  "checkout_branch E branch =
     seq (suppress_git_error (git E (registry_git E) (BranchDelete branch))) (\<lambda>_.
     seq (except_git_error
            (git E (registry_git E) (CheckoutNew branch))
            (git E (registry_git E) (Checkout branch))) (\<lambda>_.
     ret ()))"

text \<open>
  \<^verbatim>\<open>SkillData.repo_git\<close> (line 43), the submodule's working copy inside the registry.
  Its value follows from \<^verbatim>\<open>submodule_name\<close>, whose cell is set by the first access of
  either attribute, so it needs no cell of its own.
\<close>

definition skill_data_repo_git :: "env \<Rightarrow> skill_entry \<Rightarrow> string action" where
  "skill_data_repo_git E entry =
     seq (submodule_name E entry) (\<lambda>n. ret (submodule_git E n))"

text \<open>\<^verbatim>\<open>SkillData.upgrade\<close> (lines 56-74).\<close>

definition upgrade :: "env \<Rightarrow> skill_entry \<Rightarrow> string action" where
  "upgrade E entry =
     seq (submodule_name E entry) (\<lambda>skill_module.
     seq (effect MsmUpdate) (\<lambda>_.
     seq (skill_data_repo_git E entry) (\<lambda>rg.
     seq (git E rg Fetch) (\<lambda>_.
     seq (git E rg (SymbolicRef ''refs/remotes/origin/HEAD'')) (\<lambda>default_branch.
     seq (git E rg (ResetHard default_branch)) (\<lambda>_.
     seq (checkout_branch E (upgrade_branch_name (name entry))) (\<lambda>_.
     seq (git E (registry_git E) (Diff skill_module)) (\<lambda>d.
     seq (if d = [] then git E (registry_git E) (LsFiles skill_module) else ret []) (\<lambda>l.
     if d = [] \<and> l \<noteq> [] then raise (AlreadyUpdated (already_updated_message (name entry)))
     else
     seq (git E (registry_git E) (Add skill_module)) (\<lambda>_.
     seq (git E (registry_git E) (Commit (upgrade_title (name entry)))) (\<lambda>_.
     ret (upgrade_branch_name (name entry)))))))))))))"

subsection \<open>The transitions inside the two upgrade functions\<close>

text \<open>
  The spec numbers the transitions of a run: sync upstream, branch ready, diff check and
  commit.  Both upgrade functions run them in one body; the definitions below are the
  statements of each transition on their own, and \<open>perform_local_upgrade_steps\<close> and
  \<open>upgrade_steps\<close> prove that each function is its transitions in sequence.
\<close>

text \<open>upgrade.py, lines 52-55.\<close>

definition local_upgrade_sync :: "env \<Rightarrow> string \<Rightarrow> string \<Rightarrow> unit action" where
  "local_upgrade_sync E repo_git skill_git =
     seq (git E repo_git Reset) (\<lambda>_.
     seq (git E skill_git Fetch) (\<lambda>_.
     seq (git E skill_git (SymbolicRef ''refs/remotes/origin/HEAD'')) (\<lambda>default_branch.
     seq (git E skill_git (ResetHard default_branch)) (\<lambda>_.
     ret ()))))"

text \<open>upgrade.py, lines 56-59; the value is \<^verbatim>\<open>upgrade_branch\<close>.\<close>

definition local_upgrade_branch :: "env \<Rightarrow> skill_entry \<Rightarrow> string \<Rightarrow> string action" where
  "local_upgrade_branch E skill repo_git =
     seq (suppress_git_error
            (git E repo_git (BranchDelete (upgrade_branch_name (name skill))))) (\<lambda>_.
     seq (git E repo_git (CheckoutNew (upgrade_branch_name (name skill)))) (\<lambda>_.
     ret (upgrade_branch_name (name skill))))"

text \<open>upgrade.py, lines 60-67.\<close>

definition local_upgrade_commit ::
  "env \<Rightarrow> skill_entry \<Rightarrow> string \<Rightarrow> string \<Rightarrow> string action" where
  "local_upgrade_commit E skill repo_git skill_git =
     seq (git E repo_git (Diff skill_git)) (\<lambda>d.
     if d = [] then raise (AlreadyUpdated (already_updated_message (name skill)))
     else
     seq (git E repo_git (Add skill_git)) (\<lambda>_.
     seq (git E repo_git (Commit (upgrade_title (name skill)))) (\<lambda>_.
     ret (upgrade_branch_name (name skill)))))"

text \<open>repo\_action.py, lines 57-61; the value is \<^verbatim>\<open>skill_module\<close>.\<close>

definition upgrade_sync :: "env \<Rightarrow> skill_entry \<Rightarrow> string action" where
  "upgrade_sync E entry =
     seq (submodule_name E entry) (\<lambda>skill_module.
     seq (effect MsmUpdate) (\<lambda>_.
     seq (skill_data_repo_git E entry) (\<lambda>rg.
     seq (git E rg Fetch) (\<lambda>_.
     seq (git E rg (SymbolicRef ''refs/remotes/origin/HEAD'')) (\<lambda>default_branch.
     seq (git E rg (ResetHard default_branch)) (\<lambda>_.
     ret skill_module))))))"

text \<open>repo\_action.py, lines 66-74.\<close>

definition upgrade_commit :: "env \<Rightarrow> skill_entry \<Rightarrow> string \<Rightarrow> string action" where
  "upgrade_commit E entry skill_module =
     seq (git E (registry_git E) (Diff skill_module)) (\<lambda>d.
     seq (if d = [] then git E (registry_git E) (LsFiles skill_module) else ret []) (\<lambda>l.
     if d = [] \<and> l \<noteq> [] then raise (AlreadyUpdated (already_updated_message (name entry)))
     else
     seq (git E (registry_git E) (Add skill_module)) (\<lambda>_.
     seq (git E (registry_git E) (Commit (upgrade_title (name entry)))) (\<lambda>_.
     ret (upgrade_branch_name (name entry))))))"

text \<open>A run up to the diff check: the transitions before it, in sequence.\<close>

definition local_upgrade_until_diff ::
  "env \<Rightarrow> skill_entry \<Rightarrow> string \<Rightarrow> string \<Rightarrow> string action" where
  "local_upgrade_until_diff E skill repo_git skill_git =
     seq (local_upgrade_sync E repo_git skill_git) (\<lambda>_. local_upgrade_branch E skill repo_git)"

definition upgrade_until_diff :: "env \<Rightarrow> skill_entry \<Rightarrow> string action" where
  "upgrade_until_diff E entry =
     seq (upgrade_sync E entry) (\<lambda>skill_module.
     seq (checkout_branch E (upgrade_branch_name (name entry))) (\<lambda>_.
     ret skill_module))"

text \<open>upgrade.py, lines 128-141: what \<^verbatim>\<open>perform\<close> does once the local upgrade has
  returned the branch.\<close>

definition perform_publish ::
  "env \<Rightarrow> skill_entry \<Rightarrow> string \<Rightarrow> string \<Rightarrow> string \<Rightarrow> unit action" where
  "perform_publish E skill repo_git skill_git upgrade_branch =
     seq (effect AskForGithubCredentials) (\<lambda>_.
     seq (request (GetRepo ''MycroftAI/mycroft-skills'')
            (\<lambda>h. get_repo_out E h ''MycroftAI/mycroft-skills'')) (\<lambda>skills_repo.
     seq (request GetUser (get_user_out E)) (\<lambda>user.
     seq (setup_fork E repo_git user skills_repo) (\<lambda>_.
     seq (push_to_fork E upgrade_branch) (\<lambda>_.
     seq (load_skill_repo E skill) (\<lambda>skill_repo.
     seq (create_pr_message E skill skill_git skill_repo) (\<lambda>(t, b).
     seq (effect (Print [])) (\<lambda>_.
     seq (effect (Print (''=== '' @ t @ '' ===''))) (\<lambda>_.
     seq (effect (Print b)) (\<lambda>_.
     seq (effect (Print [])) (\<lambda>_.
     seq (create_or_edit_pr E t b skills_repo user upgrade_branch) (\<lambda>pull.
     effect (Print (''Created PR at: '' @ pull_html_url pull))))))))))))))"

text \<open>\<^verbatim>\<open>perform\<close> up to the diff check of the local upgrade (lines 124-125, then lines
  52-59 of \<^verbatim>\<open>perform_local_upgrade\<close>); the value is the pair of \<^verbatim>\<open>Git\<close> objects.\<close>

definition perform_until_diff :: "env \<Rightarrow> skill_entry \<Rightarrow> (string \<times> string) action" where
  "perform_until_diff E skill =
     seq (effect MsmUpdate) (\<lambda>_.
     seq (load_git_repos E skill) (\<lambda>(repo_git, skill_git).
     seq (local_upgrade_until_diff E skill repo_git skill_git) (\<lambda>_.
     ret (repo_git, skill_git))))"

subsection \<open>Reading a log\<close>

text \<open>The calls a run added to the log.\<close>

definition new_calls :: "state \<Rightarrow> state \<Rightarrow> call list" where
  "new_calls st st' = drop (length (calls st)) (calls st')"

text \<open>The calls that stage, commit, push, or list, create or edit pull requests.\<close>

fun publishes :: "call \<Rightarrow> bool" where
  "publishes (Git _ (Add _)) = True"
| "publishes (Git _ (Commit _)) = True"
| "publishes (GitPushForce _) = True"
| "publishes (GetPulls _ _ _) = True"
| "publishes (CreatePull _ _ _ _ _) = True"
| "publishes (PullEdit _ _ _) = True"
| "publishes _ = False"

text \<open>Two properties of an action, used to follow a run through its steps: it never
  raises \<^verbatim>\<open>AlreadyUpdated\<close>; it only adds calls to the log, none of which publishes.\<close>

definition never_already_updated :: "'a action \<Rightarrow> bool" where
  "never_already_updated m = (\<forall>st msg. fst (m st) \<noteq> Inl (AlreadyUpdated msg))"

definition quiet :: "'a action \<Rightarrow> bool" where
  "quiet m = (\<forall>st. \<exists>cs. calls (snd (m st)) = calls st @ cs \<and> filter publishes cs = [])"

subsection \<open>Runs and the answers git gave\<close>

text \<open>
  The answers of git may depend on everything done before, so two runs that start from
  the same log can be answered differently.  To compare two runs, the answers each
  received are checked against one table \<open>g\<close> from working directory and command to
  answer: \<open>answered E g h cs\<close> walks the calls \<open>cs\<close> that a run added to the log \<open>h\<close> and
  holds when every git command among them was answered as \<open>g\<close> says.
\<close>

fun answered ::
  "env \<Rightarrow> (string \<Rightarrow> git_cmd \<Rightarrow> string option) \<Rightarrow> call list \<Rightarrow> call list \<Rightarrow> bool" where
  "answered E g h [] = True"
| "answered E g h (Git d c # cs) =
     (git_out E h d c = g d c \<and> answered E g (h @ [Git d c]) cs)"
| "answered E g h (x # cs) = answered E g (h @ [x]) cs"




subsection \<open>A collaborator whose answers do not depend on the log\<close>

text \<open>
  An environment for concrete runs: a fixed registry listing, git answering by a fixed
  table, a fixed listing of pull requests, GitHub requests that succeed, and paths that
  are absolute and normalised as they are.
\<close>

definition fixed_env ::
  "skill_row list \<Rightarrow> (string \<Rightarrow> git_cmd \<Rightarrow> string option) \<Rightarrow> pull_request list \<Rightarrow> env" where
  "fixed_env rows table pulls =
     \<lparr>repo_path = ''/opt/mycroft/.skills-repo'',
      get_skill_data = (\<lambda>_. rows),
      git_out = (\<lambda>_. table),
      get_repo_out = (\<lambda>_ n. Some \<lparr>full_name = n, default_branch = ''master'',
                                  repo_html_url = ''https://github.com/'' @ n\<rparr>),
      get_user_out = (\<lambda>_. Some \<lparr>login = ''dev''\<rparr>),
      create_fork_out = (\<lambda>_ n. Some \<lparr>full_name = ''dev/mycroft-skills'',
                                     default_branch = ''master'',
                                     repo_html_url = ''https://github.com/dev/mycroft-skills''\<rparr>),
      get_pulls_out = (\<lambda>_ _ _ _. Some pulls),
      create_pull_out = (\<lambda>_ _ t b _ _. Some \<lparr>number = 100, title = t, body = Some b,
                                          pull_html_url = ''https://github.com/pull/100''\<rparr>),
      pull_edit_out = (\<lambda>_ _ _ _. True),
      get_commit_out = (\<lambda>_ r s. Some (''https://github.com/'' @ r @ ''/commit/'' @ s)),
      extract_repo_name = (\<lambda>_. ''skill-weather''),
      version = ''0.3.9'',
      expand_path = (\<lambda>p. p)\<rparr>"

text \<open>The plugin of the spec's scenario, its registry row, and an empty log.\<close>

definition weather :: skill_entry where
  "weather = \<lparr>name = ''skill-weather'', url = ''https://github.com/dev/skill-weather'',
              author = ''dev'', sha = ''abc123''\<rparr>"

definition weather_rows :: "skill_row list" where
  "weather_rows =
     [(''skill-timer'', ''skill-timer'', ''https://github.com/dev/skill-timer'', ''111aaa''),
      (''skill-weather'', ''skill-weather'', ''https://github.com/dev/skill-weather'', ''abc123'')]"

definition start :: state where
  "start = \<lparr>calls = [], submodule_name_cell = None\<rparr>"

text \<open>A git that accepts every command and prints \<open>d\<close> for a diff, \<open>l\<close> for ls-files,
  and nothing otherwise.\<close>

fun git_table :: "string \<Rightarrow> string \<Rightarrow> string \<Rightarrow> git_cmd \<Rightarrow> string option" where
  "git_table d l dir (Diff _) = Some d"
| "git_table d l dir (LsFiles _) = Some l"
| "git_table d l dir (SymbolicRef _) = Some ''refs/remotes/origin/master''"
| "git_table d l dir _ = Some []"

text \<open>A git whose \<^verbatim>\<open>branch -D\<close> fails, as it does when the branch does not exist, and
  which accepts every other command.\<close>

fun absent_branch_table :: "string \<Rightarrow> git_cmd \<Rightarrow> string option" where
  "absent_branch_table dir (BranchDelete _) = None"
| "absent_branch_table dir (SymbolicRef _) = Some ''refs/remotes/origin/master''"
| "absent_branch_table dir _ = Some []"

text \<open>A git on which the branch exists and is checked out: \<^verbatim>\<open>branch -D\<close> refuses to delete
  it and \<^verbatim>\<open>checkout -b\<close> refuses to create it; every other command is accepted.\<close>

fun checked_out_branch_table :: "string \<Rightarrow> git_cmd \<Rightarrow> string option" where
  "checked_out_branch_table dir (BranchDelete _) = None"
| "checked_out_branch_table dir (CheckoutNew _) = None"
| "checked_out_branch_table dir (SymbolicRef _) = Some ''refs/remotes/origin/master''"
| "checked_out_branch_table dir _ = Some []"

text \<open>Three pull requests: one whose body carries the marker, one edited by hand, one
  without a description.\<close>

definition generated_pull :: pull_request where
  "generated_pull =
     \<lparr>number = 7, title = ''Upgrade skill-weather'',
      body =
        Some ''Created with [mycroft-skills-kit](https://github.com/mycroftai/mycroft-skills-kit)'',
      pull_html_url = ''https://github.com/MycroftAI/mycroft-skills/pull/7''\<rparr>"

definition edited_pull :: pull_request where
  "edited_pull =
     \<lparr>number = 8, title = ''Upgrade skill-weather'',
      body = Some ''Please merge, tested by hand'',
      pull_html_url = ''https://github.com/MycroftAI/mycroft-skills/pull/8''\<rparr>"

definition blank_pull :: pull_request where
  "blank_pull =
     \<lparr>number = 9, title = ''Upgrade skill-weather'', body = None,
      pull_html_url = ''https://github.com/MycroftAI/mycroft-skills/pull/9''\<rparr>"

definition skills_repo_example :: repository where
  "skills_repo_example =
     \<lparr>full_name = ''MycroftAI/mycroft-skills'', default_branch = ''master'',
      repo_html_url = ''https://github.com/MycroftAI/mycroft-skills''\<rparr>"

definition skill_repo_example :: repository where
  "skill_repo_example =
     \<lparr>full_name = ''dev/skill-weather'', default_branch = ''master'',
      repo_html_url = ''https://github.com/dev/skill-weather''\<rparr>"

definition dev :: github_user where
  "dev = \<lparr>login = ''dev''\<rparr>"

text \<open>
  The git of the spec's scenario: upstream has two commits after the recorded sha,
  \<^verbatim>\<open>def456\<close> ("Add retry") and \<^verbatim>\<open>987fff\<close> ("Fix typo"), and the submodule pointer differs.
\<close>

fun scenario_table :: "string \<Rightarrow> git_cmd \<Rightarrow> string option" where
  "scenario_table dir (RevListAncestryPath _) = Some ''def456\<newline>987fff''"
| "scenario_table dir (ShowSubject s) =
     Some (if s = ''def456'' then ''Add retry'' else ''Fix typo'')"
| "scenario_table dir (SymbolicRef _) = Some ''refs/remotes/origin/master''"
| "scenario_table dir (Diff _) = Some ''+Subproject commit def456''"
| "scenario_table dir (LsFiles _) = Some ''skill-weather''"
| "scenario_table dir _ = Some []"

definition scenario_body :: string where
  "scenario_body =
     ''This upgrades skill-weather to include the following new commits:\<newline>\<newline>'' @
     '' - [Add retry](https://github.com/dev/skill-weather/commit/def456)\<newline>'' @
     '' - [Fix typo](https://github.com/dev/skill-weather/commit/987fff)'' @
     ''\<newline>\<newline><sub>Created with [mycroft-skills-kit]'' @
     ''(https://github.com/mycroftai/mycroft-skills-kit) v0.3.9</sub>''"

text \<open>The body generated when the rev-list prints nothing: one bullet, for the empty sha.\<close>

definition empty_rev_list_body :: string where
  "empty_rev_list_body =
     ''This upgrades skill-weather to include the following new commits:\<newline>\<newline>'' @
     '' - [](https://github.com/dev/skill-weather/commit/)'' @
     ''\<newline>\<newline><sub>Created with [mycroft-skills-kit]'' @
     ''(https://github.com/mycroftai/mycroft-skills-kit) v0.3.9</sub>''"





section \<open>Properties\<close>

subsection \<open>Resolution\<close>

lemma fold_add_row_absent:
  "n \<notin> fst ` set rows \<Longrightarrow> fold add_row rows m n = m n"
  by (induction rows arbitrary: m) (auto simp: image_iff)

lemma fold_add_row_present:
  "n \<in> fst ` set rows \<Longrightarrow>
   \<exists>p u s. fold add_row rows m n = Some p \<and> (n, p, u, s) \<in> set rows"
proof (induction rows arbitrary: m)
  case Nil
  then show ?case by simp
next
  case (Cons r rows)
  obtain n' p' u' s' where r: "r = (n', p', u', s')"
    by (cases r) auto
  show ?case
  proof (cases "n \<in> fst ` set rows")
    case True
    from Cons.IH [OF True, of "add_row r m"] obtain p u s
      where "fold add_row rows (add_row r m) n = Some p" and "(n, p, u, s) \<in> set rows"
      by blast
    then have "fold add_row (r # rows) m n = Some p \<and> (n, p, u, s) \<in> set (r # rows)"
      by simp
    then show ?thesis by blast
  next
    case False
    with Cons.prems have n: "n' = n"
      by (auto simp: r)
    from False have "fold add_row rows (add_row r m) n = add_row r m n"
      by (rule fold_add_row_absent)
    then have "fold add_row (r # rows) m n = Some p' \<and> (n, p', u', s') \<in> set (r # rows)"
      by (simp add: r n)
    then show ?thesis by blast
  qed
qed

lemma name_to_path_absent:
  "n \<notin> fst ` set rows \<Longrightarrow> name_to_path rows n = None"
  by (simp add: name_to_path_def fold_add_row_absent)

lemma name_to_path_present:
  "n \<in> fst ` set rows \<Longrightarrow>
   \<exists>p u s. name_to_path rows n = Some p \<and> (n, p, u, s) \<in> set rows"
  unfolding name_to_path_def by (rule fold_add_row_present)

lemma name_to_path_last:
  assumes "n \<notin> fst ` set after"
  shows "name_to_path (before @ (n, p, u, s) # after) n = Some p"
proof -
  have "name_to_path (before @ (n, p, u, s) # after) n
      = fold add_row after (add_row (n, p, u, s) (fold add_row before Map.empty)) n"
    by (simp add: name_to_path_def)
  also have "\<dots> = add_row (n, p, u, s) (fold add_row before Map.empty) n"
    using assms by (rule fold_add_row_absent)
  also have "\<dots> = Some p" by simp
  finally show ?thesis .
qed

lemma find_submodule_path_Some:
  "name_to_path (get_skill_data E (calls st)) (name skill) = Some p \<Longrightarrow>
   find_submodule_path E skill st = (Inr p, st)"
  by (simp add: find_submodule_path_def ret_def)

lemma find_submodule_path_None:
  "name_to_path (get_skill_data E (calls st)) (name skill) = None \<Longrightarrow>
   find_submodule_path E skill st = (Inl (NotUploaded (not_uploaded_message (name skill))), st)"
  by (simp add: find_submodule_path_def raise_def)

lemma submodule_name_Some:
  "name_to_path (get_skill_data E (calls st)) (name entry) = Some p \<Longrightarrow>
   submodule_name_cell st = None \<Longrightarrow>
   submodule_name E entry st = (Inr p, st\<lparr>submodule_name_cell := Some p\<rparr>)"
  by (simp add: submodule_name_def submodule_name_func_def ret_def)

lemma submodule_name_None:
  "name_to_path (get_skill_data E (calls st)) (name entry) = None \<Longrightarrow>
   submodule_name_cell st = None \<Longrightarrow>
   submodule_name E entry st = (Inl (NotUploaded (not_uploaded_message (name entry))), st)"
  by (simp add: submodule_name_def submodule_name_func_def raise_def)


text \<open>
  Claim C5.  For a plugin whose name is in the registry's listing, resolution returns a
  path recorded for that name (the one of the last row of that name, since later rows
  replace earlier ones in the dictionary); for a name not in the listing it raises
  \<^verbatim>\<open>NotUploaded\<close> and leaves the state as it was.  This holds for
  \<^verbatim>\<open>find_submodule_path\<close> and for the first access of \<^verbatim>\<open>SkillData.submodule_name\<close>, which
  on success stores the path in its cell.
\<close>

theorem resolution_complete:
  "(name skill \<in> fst ` set (get_skill_data E (calls st)) \<longrightarrow>
      (\<exists>p u s. (name skill, p, u, s) \<in> set (get_skill_data E (calls st)) \<and>
         find_submodule_path E skill st = (Inr p, st) \<and>
         (submodule_name_cell st = None \<longrightarrow>
            submodule_name E skill st = (Inr p, st\<lparr>submodule_name_cell := Some p\<rparr>)))) \<and>
   (\<forall>before p u s after.
      get_skill_data E (calls st) = before @ (name skill, p, u, s) # after \<and>
      name skill \<notin> fst ` set after \<longrightarrow>
         find_submodule_path E skill st = (Inr p, st) \<and>
         (submodule_name_cell st = None \<longrightarrow>
            submodule_name E skill st = (Inr p, st\<lparr>submodule_name_cell := Some p\<rparr>))) \<and>
   (name skill \<notin> fst ` set (get_skill_data E (calls st)) \<longrightarrow>
      find_submodule_path E skill st =
        (Inl (NotUploaded (not_uploaded_message (name skill))), st) \<and>
      (submodule_name_cell st = None \<longrightarrow>
         submodule_name E skill st =
           (Inl (NotUploaded (not_uploaded_message (name skill))), st)))"
proof (intro conjI impI allI)
  assume "name skill \<in> fst ` set (get_skill_data E (calls st))"
  from name_to_path_present [OF this] obtain p u s
    where p: "name_to_path (get_skill_data E (calls st)) (name skill) = Some p"
      and r: "(name skill, p, u, s) \<in> set (get_skill_data E (calls st))"
    by blast
  show "\<exists>p u s. (name skill, p, u, s) \<in> set (get_skill_data E (calls st)) \<and>
         find_submodule_path E skill st = (Inr p, st) \<and>
         (submodule_name_cell st = None \<longrightarrow>
            submodule_name E skill st = (Inr p, st\<lparr>submodule_name_cell := Some p\<rparr>))"
  proof (intro exI conjI impI)
    show "(name skill, p, u, s) \<in> set (get_skill_data E (calls st))"
      by (rule r)
    show "find_submodule_path E skill st = (Inr p, st)"
      using p by (rule find_submodule_path_Some)
    assume "submodule_name_cell st = None"
    with p show "submodule_name E skill st = (Inr p, st\<lparr>submodule_name_cell := Some p\<rparr>)"
      by (rule submodule_name_Some)
  qed
next
  fix before p u s after
  assume a: "get_skill_data E (calls st) = before @ (name skill, p, u, s) # after \<and>
      name skill \<notin> fst ` set after"
  then have p: "name_to_path (get_skill_data E (calls st)) (name skill) = Some p"
    by (simp add: name_to_path_last)
  then show "find_submodule_path E skill st = (Inr p, st)"
    by (rule find_submodule_path_Some)
  assume "submodule_name_cell st = None"
  with p show "submodule_name E skill st = (Inr p, st\<lparr>submodule_name_cell := Some p\<rparr>)"
    by (rule submodule_name_Some)
next
  assume "name skill \<notin> fst ` set (get_skill_data E (calls st))"
  then have n: "name_to_path (get_skill_data E (calls st)) (name skill) = None"
    by (rule name_to_path_absent)
  then show "find_submodule_path E skill st =
      (Inl (NotUploaded (not_uploaded_message (name skill))), st)"
    by (rule find_submodule_path_None)
  assume "submodule_name_cell st = None"
  with n show "submodule_name E skill st =
      (Inl (NotUploaded (not_uploaded_message (name skill))), st)"
    by (rule submodule_name_None)
qed

text \<open>The theorem at the spec's plugin, and at a plugin the registry does not list.\<close>

theorem resolution_complete_witness:
  "find_submodule_path (fixed_env weather_rows (git_table [] []) []) weather start
     = (Inr ''skill-weather'', start) \<and>
   submodule_name (fixed_env weather_rows (git_table [] []) []) weather start
     = (Inr ''skill-weather'', start\<lparr>submodule_name_cell := Some ''skill-weather''\<rparr>) \<and>
   find_submodule_path (fixed_env weather_rows (git_table [] []) []) (weather\<lparr>name := ''skill-news''\<rparr>) start
     = (Inl (NotUploaded (not_uploaded_message ''skill-news'')), start) \<and>
   submodule_name (fixed_env weather_rows (git_table [] []) []) (weather\<lparr>name := ''skill-news''\<rparr>) start
     = (Inl (NotUploaded (not_uploaded_message ''skill-news'')), start)"
proof -
  let ?E = "fixed_env weather_rows (git_table [] []) []"
  have rows: "get_skill_data ?E (calls start) = weather_rows"
    by (simp add: fixed_env_def)
  have cell: "submodule_name_cell start = None"
    by (simp add: start_def)
  have split: "get_skill_data ?E (calls start)
      = [(''skill-timer'', ''skill-timer'', ''https://github.com/dev/skill-timer'', ''111aaa'')]
        @ (name weather, ''skill-weather'', ''https://github.com/dev/skill-weather'', ''abc123'') # []
      \<and> name weather \<notin> fst ` set []"
    unfolding rows by (simp add: weather_rows_def weather_def)
  have absent: "name (weather\<lparr>name := ''skill-news''\<rparr>) \<notin> fst ` set (get_skill_data ?E (calls start))"
    unfolding rows by (simp add: weather_rows_def)
  from resolution_complete [where E = ?E and skill = weather and st = start] split cell
  have 1: "find_submodule_path ?E weather start = (Inr ''skill-weather'', start) \<and>
      submodule_name ?E weather start
        = (Inr ''skill-weather'', start\<lparr>submodule_name_cell := Some ''skill-weather''\<rparr>)"
    by blast
  from resolution_complete [where E = ?E and skill = "weather\<lparr>name := ''skill-news''\<rparr>" and st = start] absent cell
  have 2: "find_submodule_path ?E (weather\<lparr>name := ''skill-news''\<rparr>) start
        = (Inl (NotUploaded (not_uploaded_message ''skill-news'')), start) \<and>
      submodule_name ?E (weather\<lparr>name := ''skill-news''\<rparr>) start
        = (Inl (NotUploaded (not_uploaded_message ''skill-news'')), start)"
    by simp
  from 1 2 show ?thesis by simp
qed


subsection \<open>Sequencing\<close>

lemma seq_ret: "seq (ret x) f = f x"
  by (rule ext) (simp add: seq_def ret_def)

lemma seq_assoc: "seq (seq m f) g = seq m (\<lambda>x. seq (f x) g)"
  by (rule ext) (simp add: seq_def split: prod.splits sum.splits)

lemma calls_record_call: "calls (record_call c st) = calls st @ [c]"
  by (simp add: record_call_def)

subsection \<open>Each upgrade function is its transitions in sequence\<close>

lemma perform_local_upgrade_steps:
  "perform_local_upgrade E skill rg sg =
     seq (local_upgrade_sync E rg sg) (\<lambda>_.
     seq (local_upgrade_branch E skill rg) (\<lambda>_.
     local_upgrade_commit E skill rg sg))"
  by (simp add: perform_local_upgrade_def local_upgrade_sync_def local_upgrade_branch_def
      local_upgrade_commit_def seq_assoc seq_ret)

lemma upgrade_steps:
  "upgrade E entry =
     seq (upgrade_sync E entry) (\<lambda>skill_module.
     seq (checkout_branch E (upgrade_branch_name (name entry))) (\<lambda>_.
     upgrade_commit E entry skill_module))"
  by (simp add: upgrade_def upgrade_sync_def upgrade_commit_def seq_assoc seq_ret)

subsection \<open>Branch ready\<close>

lemma local_upgrade_branch_eq:
  "local_upgrade_branch E skill rg st =
     (case git_out E (calls st @ [Git rg (BranchDelete (upgrade_branch_name (name skill)))]) rg
             (CheckoutNew (upgrade_branch_name (name skill))) of
        None \<Rightarrow> Inl GitCommandError
      | Some _ \<Rightarrow> Inr (upgrade_branch_name (name skill)),
      st\<lparr>calls := calls st @ [Git rg (BranchDelete (upgrade_branch_name (name skill))),
                             Git rg (CheckoutNew (upgrade_branch_name (name skill)))]\<rparr>)"
  by (simp add: local_upgrade_branch_def seq_def suppress_git_error_def git_def ret_def
      record_call_def split: option.splits)

lemma checkout_branch_eq:
  "checkout_branch E b st =
     (case git_out E (calls st @ [Git (registry_git E) (BranchDelete b)]) (registry_git E)
             (CheckoutNew b) of
        Some _ \<Rightarrow>
          (Inr (), st\<lparr>calls := calls st @ [Git (registry_git E) (BranchDelete b),
                                          Git (registry_git E) (CheckoutNew b)]\<rparr>)
      | None \<Rightarrow>
          (case git_out E (calls st @ [Git (registry_git E) (BranchDelete b),
                                      Git (registry_git E) (CheckoutNew b)]) (registry_git E)
                  (Checkout b) of
             None \<Rightarrow> Inl GitCommandError
           | Some _ \<Rightarrow> Inr (),
           st\<lparr>calls := calls st @ [Git (registry_git E) (BranchDelete b),
                                  Git (registry_git E) (CheckoutNew b),
                                  Git (registry_git E) (Checkout b)]\<rparr>))"
  by (simp add: checkout_branch_def seq_def suppress_git_error_def except_git_error_def
      git_def ret_def record_call_def split: option.splits)


text \<open>
  Claim C6, amended.  In both upgrade functions the branch-ready transition comes after
  the sync and before the diff check.  It always issues \<^verbatim>\<open>git branch -D upgrade/<pluginId>\<close>
  and then \<^verbatim>\<open>git checkout -b upgrade/<pluginId>\<close>, and the answer to the delete appears
  nowhere on the right-hand sides: a delete that fails because the branch is absent does
  not abort the run.  When the creation succeeds, the transition succeeds.  When it
  fails, \<^verbatim>\<open>perform_local_upgrade\<close> aborts with \<^verbatim>\<open>GitCommandError\<close>, while
  \<^verbatim>\<open>RepoData.checkout_branch\<close>, which \<^verbatim>\<open>SkillData.upgrade\<close> calls, checks out the existing
  branch instead and aborts only if that fails too.
\<close>

theorem branch_ready_ignores_failed_delete:
  "perform_local_upgrade E skill rg sg =
     seq (local_upgrade_sync E rg sg) (\<lambda>_.
     seq (local_upgrade_branch E skill rg) (\<lambda>_.
     local_upgrade_commit E skill rg sg)) \<and>
   local_upgrade_branch E skill rg st =
     (case git_out E (calls st @ [Git rg (BranchDelete (''upgrade/'' @ name skill))]) rg
             (CheckoutNew (''upgrade/'' @ name skill)) of
        None \<Rightarrow> Inl GitCommandError
      | Some _ \<Rightarrow> Inr (''upgrade/'' @ name skill),
      st\<lparr>calls := calls st @ [Git rg (BranchDelete (''upgrade/'' @ name skill)),
                             Git rg (CheckoutNew (''upgrade/'' @ name skill))]\<rparr>) \<and>
   upgrade E skill =
     seq (upgrade_sync E skill) (\<lambda>skill_module.
     seq (checkout_branch E (''upgrade/'' @ name skill)) (\<lambda>_.
     upgrade_commit E skill skill_module)) \<and>
   checkout_branch E b st =
     (case git_out E (calls st @ [Git (registry_git E) (BranchDelete b)]) (registry_git E)
             (CheckoutNew b) of
        Some _ \<Rightarrow>
          (Inr (), st\<lparr>calls := calls st @ [Git (registry_git E) (BranchDelete b),
                                          Git (registry_git E) (CheckoutNew b)]\<rparr>)
      | None \<Rightarrow>
          (case git_out E (calls st @ [Git (registry_git E) (BranchDelete b),
                                      Git (registry_git E) (CheckoutNew b)]) (registry_git E)
                  (Checkout b) of
             None \<Rightarrow> Inl GitCommandError
           | Some _ \<Rightarrow> Inr (),
           st\<lparr>calls := calls st @ [Git (registry_git E) (BranchDelete b),
                                  Git (registry_git E) (CheckoutNew b),
                                  Git (registry_git E) (Checkout b)]\<rparr>))"
  using perform_local_upgrade_steps [of E skill rg sg]
    local_upgrade_branch_eq [of E skill rg st, unfolded upgrade_branch_name_def]
    upgrade_steps [of E skill, unfolded upgrade_branch_name_def] checkout_branch_eq [of E b st]
  by (intro conjI)

text \<open>A run where the branch is absent, so the delete fails: the transition succeeds.\<close>

theorem branch_ready_ignores_failed_delete_witness:
  "git_out (fixed_env weather_rows absent_branch_table []) [] ''/opt/mycroft/.skills-repo''
     (BranchDelete ''upgrade/skill-weather'') = None \<and>
   local_upgrade_branch (fixed_env weather_rows absent_branch_table []) weather
       ''/opt/mycroft/.skills-repo'' start =
     (Inr ''upgrade/skill-weather'',
      start\<lparr>calls := [Git ''/opt/mycroft/.skills-repo'' (BranchDelete ''upgrade/skill-weather''),
                       Git ''/opt/mycroft/.skills-repo'' (CheckoutNew ''upgrade/skill-weather'')]\<rparr>) \<and>
   checkout_branch (fixed_env weather_rows absent_branch_table []) ''upgrade/skill-weather'' start =
     (Inr (),
      start\<lparr>calls := [Git ''/opt/mycroft/.skills-repo'' (BranchDelete ''upgrade/skill-weather''),
                       Git ''/opt/mycroft/.skills-repo'' (CheckoutNew ''upgrade/skill-weather'')]\<rparr>)"
proof -
  let ?E = "fixed_env weather_rows absent_branch_table []"
  have g: "git_out ?E h = absent_branch_table" for h
    by (simp add: fixed_env_def)
  have r: "registry_git ?E = ''/opt/mycroft/.skills-repo''"
    by (simp add: registry_git_def fixed_env_def)
  have n: "name weather = ''skill-weather''"
    by (simp add: weather_def)
  from branch_ready_ignores_failed_delete
    [where E = ?E and skill = weather and rg = "''/opt/mycroft/.skills-repo''" and st = start
       and b = "''upgrade/skill-weather''"]
  have "local_upgrade_branch ?E weather ''/opt/mycroft/.skills-repo'' start =
     (Inr ''upgrade/skill-weather'',
      start\<lparr>calls := [Git ''/opt/mycroft/.skills-repo'' (BranchDelete ''upgrade/skill-weather''),
                       Git ''/opt/mycroft/.skills-repo'' (CheckoutNew ''upgrade/skill-weather'')]\<rparr>)"
    and "checkout_branch ?E ''upgrade/skill-weather'' start =
     (Inr (),
      start\<lparr>calls := [Git ''/opt/mycroft/.skills-repo'' (BranchDelete ''upgrade/skill-weather''),
                       Git ''/opt/mycroft/.skills-repo'' (CheckoutNew ''upgrade/skill-weather'')]\<rparr>)"
    by (simp_all add: g r n start_def)
  then show ?thesis
    by (simp add: g)
qed

text \<open>
  The claim as stated fails for \<^verbatim>\<open>RepoData.checkout_branch\<close>: on a git where the branch
  exists and is checked out, the delete fails, the creation fails, and the transition
  succeeds by checking out the branch as it is, not created fresh.  On the same git the
  transition of \<^verbatim>\<open>perform_local_upgrade\<close> aborts.
\<close>

theorem existing_branch_not_recreated_counterexample:
  "git_out (fixed_env weather_rows checked_out_branch_table []) []
     ''/opt/mycroft/.skills-repo'' (CheckoutNew ''upgrade/skill-weather'') = None \<and>
   checkout_branch (fixed_env weather_rows checked_out_branch_table [])
       ''upgrade/skill-weather'' start =
     (Inr (),
      start\<lparr>calls := [Git ''/opt/mycroft/.skills-repo'' (BranchDelete ''upgrade/skill-weather''),
                       Git ''/opt/mycroft/.skills-repo'' (CheckoutNew ''upgrade/skill-weather''),
                       Git ''/opt/mycroft/.skills-repo'' (Checkout ''upgrade/skill-weather'')]\<rparr>) \<and>
   local_upgrade_branch (fixed_env weather_rows checked_out_branch_table []) weather
       ''/opt/mycroft/.skills-repo'' start =
     (Inl GitCommandError,
      start\<lparr>calls := [Git ''/opt/mycroft/.skills-repo'' (BranchDelete ''upgrade/skill-weather''),
                       Git ''/opt/mycroft/.skills-repo'' (CheckoutNew ''upgrade/skill-weather'')]\<rparr>)"
proof -
  let ?E = "fixed_env weather_rows checked_out_branch_table []"
  have g: "git_out ?E h = checked_out_branch_table" for h
    by (simp add: fixed_env_def)
  have r: "registry_git ?E = ''/opt/mycroft/.skills-repo''"
    by (simp add: registry_git_def fixed_env_def)
  have n: "name weather = ''skill-weather''"
    by (simp add: weather_def)
  show ?thesis
    by (simp add: checkout_branch_eq local_upgrade_branch_eq g r n start_def
        upgrade_branch_name_def)
qed

subsection \<open>The provenance marker\<close>

lemma contains_prefix: "prefix sub s \<Longrightarrow> contains sub s"
  by (cases s) auto

lemma contains_append_right: "contains sub b \<Longrightarrow> contains sub (a @ b)"
proof (induction a)
  case Nil
  then show ?case by simp
next
  case (Cons x a)
  then show ?case by simp
qed

lemma contains_middle: "contains sub (a @ sub @ c)"
  by (rule contains_append_right) (rule contains_prefix, simp)

lemma contains_decompose: "contains sub s \<Longrightarrow> \<exists>a c. s = a @ sub @ c"
proof (induction s)
  case Nil
  then show ?case by simp
next
  case (Cons x s)
  show ?case
  proof (cases "prefix sub (x # s)")
    case True
    then obtain c where "x # s = sub @ c"
      by (auto simp: prefix_def)
    then have "x # s = [] @ sub @ c" by simp
    then show ?thesis by blast
  next
    case False
    with Cons.prems have "contains sub s" by simp
    from Cons.IH [OF this] obtain a c where "s = a @ sub @ c" by blast
    then have "x # s = (x # a) @ sub @ c" by simp
    then show ?thesis by blast
  qed
qed

lemma contains_iff: "contains sub s \<longleftrightarrow> (\<exists>a c. s = a @ sub @ c)"
  using contains_decompose [of sub s] contains_middle [of sub] by auto

lemma footer_contains_marker: "contains marker (pr_footer v)"
proof -
  have "pr_footer v =
      ''\<newline>\<newline><sub>Created with ['' @ marker @
      (''](https://github.com/mycroftai/mycroft-skills-kit) v'' @ v @ ''</sub>'')"
    by (simp add: pr_footer_def marker_def)
  then show ?thesis
    by (simp only: contains_middle)
qed

lemma create_pr_message_result:
  assumes "create_pr_message E skill sg repo st = (Inr (t, b), st')"
  shows "t = upgrade_title (name skill) \<and>
         (\<exists>bs. b = pr_header (name skill) @ join_with ''\<newline>'' bs @ pr_footer (version E))"
  using assms
  by (auto simp: create_pr_message_def seq_def ret_def split: prod.splits sum.splits)

lemma create_pr_message_marker:
  assumes "create_pr_message E skill sg repo st = (Inr (t, b), st')"
  shows "contains marker b"
proof -
  from create_pr_message_result [OF assms] obtain bs
    where "b = (pr_header (name skill) @ join_with ''\<newline>'' bs) @ pr_footer (version E)"
    by auto
  then show ?thesis
    by (simp only: contains_append_right [OF footer_contains_marker])
qed

subsection \<open>Reconciling the pull request\<close>

lemma create_or_edit_pr_Cons:
  assumes "get_pulls_out E (calls st) (full_name sr) (default_branch sr)
             (login u @ '':'' @ br) = Some (p # rest)"
  shows "create_or_edit_pr E t b sr u br st =
     (case body p of
        None \<Rightarrow>
          (Inl TypeError,
           record_call (GetPulls (full_name sr) (default_branch sr) (login u @ '':'' @ br)) st)
      | Some text \<Rightarrow>
          if contains marker text
          then pull_edit E p t b
                 (record_call
                    (GetPulls (full_name sr) (default_branch sr) (login u @ '':'' @ br)) st)
          else (Inl (PRModified pr_modified_message),
                record_call
                  (GetPulls (full_name sr) (default_branch sr) (login u @ '':'' @ br)) st))"
  using assms
  by (simp add: create_or_edit_pr_def seq_def request_def raise_def split: option.splits)

lemma create_or_edit_pr_Nil:
  assumes "get_pulls_out E (calls st) (full_name sr) (default_branch sr)
             (login u @ '':'' @ br) = Some []"
  shows "create_or_edit_pr E t b sr u br st =
     request (CreatePull (full_name sr) t b (default_branch sr) (login u @ '':'' @ br))
       (\<lambda>h. create_pull_out E h (full_name sr) t b (default_branch sr) (login u @ '':'' @ br))
       (record_call (GetPulls (full_name sr) (default_branch sr) (login u @ '':'' @ br)) st)"
  using assms by (simp add: create_or_edit_pr_def seq_def request_def)

lemma create_or_edit_pr_None:
  assumes "get_pulls_out E (calls st) (full_name sr) (default_branch sr)
             (login u @ '':'' @ br) = None"
  shows "create_or_edit_pr E t b sr u br st =
     (Inl GithubException,
      record_call (GetPulls (full_name sr) (default_branch sr) (login u @ '':'' @ br)) st)"
  using assms by (simp add: create_or_edit_pr_def seq_def request_def)

lemma pull_edit_calls:
  "calls (snd (pull_edit E p t b st)) = calls st @ [PullEdit (number p) t b]"
  by (simp add: pull_edit_def record_call_def)

lemma pull_edit_not_modified: "fst (pull_edit E p t b st) \<noteq> Inl (PRModified msg)"
  by (simp add: pull_edit_def)

lemma new_calls_append: "calls st' = calls st @ cs \<Longrightarrow> new_calls st st' = cs"
  by (simp add: new_calls_def)

lemma marker_in_generated:
  "contains marker
     ''Created with [mycroft-skills-kit](https://github.com/mycroftai/mycroft-skills-kit)''"
proof -
  have "''Created with [mycroft-skills-kit](https://github.com/mycroftai/mycroft-skills-kit)'' =
      ''Created with ['' @ marker @ ''](https://github.com/mycroftai/mycroft-skills-kit)''"
    by (simp add: marker_def)
  then show ?thesis by (simp only: contains_middle)
qed

lemma body_generated_pull:
  "body generated_pull =
     Some ''Created with [mycroft-skills-kit](https://github.com/mycroftai/mycroft-skills-kit)''"
  by (simp add: generated_pull_def)

lemma marker_not_in_edited: "\<not> contains marker ''Please merge, tested by hand''"
  by (simp add: marker_def)

lemma body_edited_pull: "body edited_pull = Some ''Please merge, tested by hand''"
  by (simp add: edited_pull_def)

text \<open>
  When the first pull request of the listing has a description and the description does
  not contain the marker, \<^verbatim>\<open>create_or_edit_pr\<close> raises \<^verbatim>\<open>PRModified\<close>, and the listing is
  the only request it has made.
\<close>

lemma unmarked_description_refused:
  assumes "get_pulls_out E (calls st) (full_name sr) (default_branch sr)
             (login u @ '':'' @ br) = Some (p # rest)"
    and "body p = Some desc"
    and "\<not> contains marker desc"
  shows "create_or_edit_pr E t b sr u br st =
     (Inl (PRModified pr_modified_message),
      st\<lparr>calls := calls st @
             [GetPulls (full_name sr) (default_branch sr) (login u @ '':'' @ br)]\<rparr>)"
  using assms by (simp add: create_or_edit_pr_Cons record_call_def)

lemma unmarked_description_refused_example:
  "create_or_edit_pr (fixed_env weather_rows (git_table [] []) [edited_pull])
      ''Upgrade skill-weather'' ''new body'' skills_repo_example dev ''upgrade/skill-weather'' start =
     (Inl (PRModified pr_modified_message),
      start\<lparr>calls := [GetPulls ''MycroftAI/mycroft-skills'' ''master''
                         ''dev:upgrade/skill-weather'']\<rparr>)"
proof -
  let ?E = "fixed_env weather_rows (git_table [] []) [edited_pull]"
  have "get_pulls_out ?E (calls start) (full_name skills_repo_example)
      (default_branch skills_repo_example) (login dev @ '':'' @ ''upgrade/skill-weather'')
      = Some (edited_pull # [])"
    by (simp add: fixed_env_def)
  from unmarked_description_refused [OF this body_edited_pull marker_not_in_edited]
  show ?thesis
    by (simp add: skills_repo_example_def dev_def start_def)
qed

text \<open>
  Claim C3.  The claim is that an existing pull request whose body lacks the marker makes
  \<^verbatim>\<open>create_or_edit_pr\<close> raise \<^verbatim>\<open>PRModified\<close>.  A pull request opened without a
  description has the body \<^verbatim>\<open>None\<close>, which lacks the marker; for it the membership test
  of line 109 raises \<^verbatim>\<open>TypeError\<close>, not \<^verbatim>\<open>PRModified\<close>.  The run below lists one such pull
  request for the base and head.
\<close>

theorem blank_description_raises_type_error:
  "get_pulls_out (fixed_env weather_rows (git_table [] []) [blank_pull]) []
      ''MycroftAI/mycroft-skills'' ''master'' ''dev:upgrade/skill-weather'' = Some [blank_pull] \<and>
   body blank_pull = None \<and>
   create_or_edit_pr (fixed_env weather_rows (git_table [] []) [blank_pull])
      ''Upgrade skill-weather'' ''new body'' skills_repo_example dev ''upgrade/skill-weather'' start =
     (Inl TypeError,
      start\<lparr>calls := [GetPulls ''MycroftAI/mycroft-skills'' ''master''
                         ''dev:upgrade/skill-weather'']\<rparr>) \<and>
   create_or_edit_pr (fixed_env weather_rows (git_table [] []) [blank_pull])
      ''Upgrade skill-weather'' ''new body'' skills_repo_example dev ''upgrade/skill-weather'' start \<noteq>
     (Inl (PRModified pr_modified_message),
      start\<lparr>calls := [GetPulls ''MycroftAI/mycroft-skills'' ''master''
                         ''dev:upgrade/skill-weather'']\<rparr>)"
proof -
  let ?E = "fixed_env weather_rows (git_table [] []) [blank_pull]"
  have l: "get_pulls_out ?E (calls start) (full_name skills_repo_example)
      (default_branch skills_repo_example) (login dev @ '':'' @ ''upgrade/skill-weather'')
      = Some (blank_pull # [])"
    by (simp add: fixed_env_def)
  have b: "body blank_pull = None"
    by (simp add: blank_pull_def)
  have "create_or_edit_pr ?E ''Upgrade skill-weather'' ''new body'' skills_repo_example dev
      ''upgrade/skill-weather'' start =
     (Inl TypeError,
      start\<lparr>calls := [GetPulls ''MycroftAI/mycroft-skills'' ''master''
                         ''dev:upgrade/skill-weather'']\<rparr>)"
    unfolding create_or_edit_pr_Cons [OF l]
    by (simp add: b record_call_def skills_repo_example_def dev_def start_def)
  moreover have "get_pulls_out ?E [] ''MycroftAI/mycroft-skills'' ''master''
      ''dev:upgrade/skill-weather'' = Some [blank_pull]"
    by (simp add: fixed_env_def)
  ultimately show ?thesis
    using b by simp
qed

lemma create_or_edit_pr_calls_Cons:
  assumes "get_pulls_out E (calls st) (full_name sr) (default_branch sr)
             (login u @ '':'' @ br) = Some (p # rest)"
  shows "new_calls st (snd (create_or_edit_pr E t b sr u br st)) =
     (case body p of
        None \<Rightarrow> [GetPulls (full_name sr) (default_branch sr) (login u @ '':'' @ br)]
      | Some text \<Rightarrow>
          if contains marker text
          then [GetPulls (full_name sr) (default_branch sr) (login u @ '':'' @ br),
                PullEdit (number p) t b]
          else [GetPulls (full_name sr) (default_branch sr) (login u @ '':'' @ br)])"
  by (rule new_calls_append)
    (simp add: create_or_edit_pr_Cons [OF assms] pull_edit_calls calls_record_call
      split: option.splits)

lemma create_or_edit_pr_calls_None:
  assumes "get_pulls_out E (calls st) (full_name sr) (default_branch sr)
             (login u @ '':'' @ br) = None"
  shows "new_calls st (snd (create_or_edit_pr E t b sr u br st)) =
     [GetPulls (full_name sr) (default_branch sr) (login u @ '':'' @ br)]"
  by (rule new_calls_append)
    (simp add: create_or_edit_pr_None [OF assms] calls_record_call)

lemma create_pull_only_when_none_listed:
  assumes "CreatePull r t' b' ba he
             \<in> set (new_calls st (snd (create_or_edit_pr E t b sr u br st)))"
  shows "get_pulls_out E (calls st) (full_name sr) (default_branch sr)
           (login u @ '':'' @ br) = Some []"
proof (cases "get_pulls_out E (calls st) (full_name sr) (default_branch sr)
           (login u @ '':'' @ br)")
  case None
  from assms show ?thesis
    unfolding create_or_edit_pr_calls_None [OF None] by simp
next
  case (Some ps)
  show ?thesis
  proof (cases ps)
    case Nil
    with Some show ?thesis by simp
  next
    case (Cons p rest)
    with Some have l: "get_pulls_out E (calls st) (full_name sr) (default_branch sr)
           (login u @ '':'' @ br) = Some (p # rest)"
      by simp
    from assms show ?thesis
      unfolding create_or_edit_pr_calls_Cons [OF l]
      by (simp split: if_splits option.splits)
  qed
qed

text \<open>
  Claim C4, amended.  When the first pull request of the listing for the base and head
  (the only one, when the listing has one element) has a body with the marker,
  \<^verbatim>\<open>create_or_edit_pr\<close> calls \<^verbatim>\<open>edit\<close> on that pull request with the new title and body,
  and that is its only request after the listing; when GitHub accepts the edit, the call
  returns that pull request with the new title and body.  \<^verbatim>\<open>create_pull\<close> is called only
  when the listing is empty.
\<close>

theorem marked_first_pull_edited:
  "(get_pulls_out E (calls st) (full_name sr) (default_branch sr)
        (login u @ '':'' @ br) = Some (p # rest) \<and>
      body p = Some desc \<and> contains marker desc \<longrightarrow>
      new_calls st (snd (create_or_edit_pr E t b sr u br st)) =
        [GetPulls (full_name sr) (default_branch sr) (login u @ '':'' @ br),
         PullEdit (number p) t b] \<and>
      (pull_edit_out E
          (calls st @ [GetPulls (full_name sr) (default_branch sr) (login u @ '':'' @ br)])
          (number p) t b \<longrightarrow>
       fst (create_or_edit_pr E t b sr u br st) = Inr (p\<lparr>title := t, body := Some b\<rparr>))) \<and>
   ((\<exists>r t' b' ba he. CreatePull r t' b' ba he
        \<in> set (new_calls st (snd (create_or_edit_pr E t b sr u br st)))) \<longrightarrow>
      get_pulls_out E (calls st) (full_name sr) (default_branch sr)
        (login u @ '':'' @ br) = Some [])"
proof (intro conjI impI)
  assume a: "get_pulls_out E (calls st) (full_name sr) (default_branch sr)
        (login u @ '':'' @ br) = Some (p # rest) \<and>
      body p = Some desc \<and> contains marker desc"
  then show "new_calls st (snd (create_or_edit_pr E t b sr u br st)) =
        [GetPulls (full_name sr) (default_branch sr) (login u @ '':'' @ br),
         PullEdit (number p) t b]"
    by (simp add: create_or_edit_pr_calls_Cons)
  assume "pull_edit_out E
          (calls st @ [GetPulls (full_name sr) (default_branch sr) (login u @ '':'' @ br)])
          (number p) t b"
  with a show "fst (create_or_edit_pr E t b sr u br st) = Inr (p\<lparr>title := t, body := Some b\<rparr>)"
    by (simp add: create_or_edit_pr_Cons pull_edit_def calls_record_call)
next
  assume "\<exists>r t' b' ba he. CreatePull r t' b' ba he
        \<in> set (new_calls st (snd (create_or_edit_pr E t b sr u br st)))"
  then show "get_pulls_out E (calls st) (full_name sr) (default_branch sr)
        (login u @ '':'' @ br) = Some []"
    using create_pull_only_when_none_listed by blast
qed

text \<open>The theorem at a listing whose only pull request carries the marker, and at an
  empty listing, where the pull request is created.\<close>

theorem marked_first_pull_edited_witness:
  "new_calls start
     (snd (create_or_edit_pr (fixed_env weather_rows (git_table [] []) [generated_pull])
        ''Upgrade skill-weather'' ''new body'' skills_repo_example dev
        ''upgrade/skill-weather'' start)) =
     [GetPulls ''MycroftAI/mycroft-skills'' ''master'' ''dev:upgrade/skill-weather'',
      PullEdit 7 ''Upgrade skill-weather'' ''new body''] \<and>
   fst (create_or_edit_pr (fixed_env weather_rows (git_table [] []) [generated_pull])
        ''Upgrade skill-weather'' ''new body'' skills_repo_example dev
        ''upgrade/skill-weather'' start) =
     Inr (generated_pull\<lparr>title := ''Upgrade skill-weather'', body := Some ''new body''\<rparr>) \<and>
   CreatePull ''MycroftAI/mycroft-skills'' ''Upgrade skill-weather'' ''new body'' ''master''
       ''dev:upgrade/skill-weather''
     \<in> set (new_calls start
         (snd (create_or_edit_pr (fixed_env weather_rows (git_table [] []) [])
            ''Upgrade skill-weather'' ''new body'' skills_repo_example dev
            ''upgrade/skill-weather'' start))) \<and>
   get_pulls_out (fixed_env weather_rows (git_table [] []) []) (calls start)
       ''MycroftAI/mycroft-skills'' ''master'' ''dev:upgrade/skill-weather'' = Some []"
proof -
  let ?E = "fixed_env weather_rows (git_table [] []) [generated_pull]"
  let ?N = "fixed_env weather_rows (git_table [] []) []"
  have l: "get_pulls_out ?E (calls start) (full_name skills_repo_example)
      (default_branch skills_repo_example) (login dev @ '':'' @ ''upgrade/skill-weather'')
      = Some (generated_pull # [])"
    by (simp add: fixed_env_def)
  have e: "pull_edit_out ?E h n t b" for h n t b
    by (simp add: fixed_env_def)
  have n: "number generated_pull = 7"
    by (simp add: generated_pull_def)
  have l0: "get_pulls_out ?N (calls start) (full_name skills_repo_example)
      (default_branch skills_repo_example) (login dev @ '':'' @ ''upgrade/skill-weather'')
      = Some []"
    by (simp add: fixed_env_def)
  have c0: "calls (snd (create_or_edit_pr ?N ''Upgrade skill-weather'' ''new body''
            skills_repo_example dev ''upgrade/skill-weather'' start)) =
       calls start @
       [GetPulls ''MycroftAI/mycroft-skills'' ''master'' ''dev:upgrade/skill-weather'',
        CreatePull ''MycroftAI/mycroft-skills'' ''Upgrade skill-weather'' ''new body''
          ''master'' ''dev:upgrade/skill-weather'']"
    unfolding create_or_edit_pr_Nil [OF l0]
    by (simp add: request_def fixed_env_def record_call_def skills_repo_example_def dev_def)
  have c: "CreatePull ''MycroftAI/mycroft-skills'' ''Upgrade skill-weather'' ''new body''
       ''master'' ''dev:upgrade/skill-weather''
     \<in> set (new_calls start
         (snd (create_or_edit_pr ?N ''Upgrade skill-weather'' ''new body''
            skills_repo_example dev ''upgrade/skill-weather'' start)))"
    unfolding new_calls_append [OF c0] by simp
  from marked_first_pull_edited [where E = ?E and st = start and sr = skills_repo_example
      and u = dev and br = "''upgrade/skill-weather''" and p = generated_pull and rest = "[]"
      and t = "''Upgrade skill-weather''" and b = "''new body''"
      and desc = "''Created with [mycroft-skills-kit](https://github.com/mycroftai/mycroft-skills-kit)''"]
    l body_generated_pull marker_in_generated e
  have 1: "new_calls start
     (snd (create_or_edit_pr ?E ''Upgrade skill-weather'' ''new body'' skills_repo_example dev
        ''upgrade/skill-weather'' start)) =
       [GetPulls (full_name skills_repo_example) (default_branch skills_repo_example)
          (login dev @ '':'' @ ''upgrade/skill-weather''),
        PullEdit (number generated_pull) ''Upgrade skill-weather'' ''new body''] \<and>
     fst (create_or_edit_pr ?E ''Upgrade skill-weather'' ''new body'' skills_repo_example dev
        ''upgrade/skill-weather'' start) =
       Inr (generated_pull\<lparr>title := ''Upgrade skill-weather'', body := Some ''new body''\<rparr>)"
    by blast
  from marked_first_pull_edited [where E = ?N and st = start and sr = skills_repo_example
      and u = dev and br = "''upgrade/skill-weather''"
      and t = "''Upgrade skill-weather''" and b = "''new body''"] c
  have 2: "get_pulls_out ?N (calls start) (full_name skills_repo_example)
      (default_branch skills_repo_example) (login dev @ '':'' @ ''upgrade/skill-weather'')
      = Some []"
    by blast
  from 1 2 c show ?thesis
    by (simp add: n skills_repo_example_def dev_def)
qed

text \<open>
  The claim as stated, for every listed pull request with the marker, fails when such a
  pull request is listed after one without it: \<^verbatim>\<open>PRModified\<close> is raised and the marked
  pull request is not edited.
\<close>

theorem marked_later_pull_counterexample:
  "get_pulls_out (fixed_env weather_rows (git_table [] []) [edited_pull, generated_pull]) []
      ''MycroftAI/mycroft-skills'' ''master'' ''dev:upgrade/skill-weather''
     = Some [edited_pull, generated_pull] \<and>
   body generated_pull =
     Some ''Created with [mycroft-skills-kit](https://github.com/mycroftai/mycroft-skills-kit)'' \<and>
   contains marker
     ''Created with [mycroft-skills-kit](https://github.com/mycroftai/mycroft-skills-kit)'' \<and>
   create_or_edit_pr (fixed_env weather_rows (git_table [] []) [edited_pull, generated_pull])
      ''Upgrade skill-weather'' ''new body'' skills_repo_example dev ''upgrade/skill-weather'' start =
     (Inl (PRModified pr_modified_message),
      start\<lparr>calls := [GetPulls ''MycroftAI/mycroft-skills'' ''master''
                         ''dev:upgrade/skill-weather'']\<rparr>)"
proof -
  let ?E = "fixed_env weather_rows (git_table [] []) [edited_pull, generated_pull]"
  have l: "get_pulls_out ?E (calls start) (full_name skills_repo_example)
      (default_branch skills_repo_example) (login dev @ '':'' @ ''upgrade/skill-weather'')
      = Some (edited_pull # [generated_pull])"
    by (simp add: fixed_env_def)
  have "create_or_edit_pr ?E ''Upgrade skill-weather'' ''new body'' skills_repo_example dev
      ''upgrade/skill-weather'' start =
     (Inl (PRModified pr_modified_message),
      start\<lparr>calls := [GetPulls ''MycroftAI/mycroft-skills'' ''master''
                         ''dev:upgrade/skill-weather'']\<rparr>)"
    unfolding create_or_edit_pr_Cons [OF l] body_edited_pull
    apply (simp only: option.case marker_not_in_edited if_False)
    apply (simp add: record_call_def skills_repo_example_def dev_def start_def)
    done
  moreover have "get_pulls_out ?E [] ''MycroftAI/mycroft-skills'' ''master''
      ''dev:upgrade/skill-weather'' = Some [edited_pull, generated_pull]"
    by (simp add: fixed_env_def)
  ultimately show ?thesis
    using marker_in_generated body_generated_pull by (simp only: simp_thms)
qed

text \<open>
  Claim C9.  When the listing has a first pull request and any number of others, the
  outcome of \<^verbatim>\<open>create_or_edit_pr\<close> is decided by the first alone: it is the outcome the
  call would have had if only the first had been listed.  Nothing is raised on account
  of the others, and no request is made about them.
\<close>

theorem first_listed_pull_decides:
  assumes "get_pulls_out E (calls st) (full_name sr) (default_branch sr)
             (login u @ '':'' @ br) = Some (p # rest)"
  shows "create_or_edit_pr E t b sr u br st =
           create_or_edit_pr (E\<lparr>get_pulls_out := \<lambda>_ _ _ _. Some [p]\<rparr>) t b sr u br st \<and>
         create_or_edit_pr E t b sr u br st =
           (case body p of
              None \<Rightarrow>
                (Inl TypeError,
                 record_call
                   (GetPulls (full_name sr) (default_branch sr) (login u @ '':'' @ br)) st)
            | Some text \<Rightarrow>
                if contains marker text
                then pull_edit E p t b
                       (record_call
                          (GetPulls (full_name sr) (default_branch sr) (login u @ '':'' @ br)) st)
                else (Inl (PRModified pr_modified_message),
                      record_call
                        (GetPulls (full_name sr) (default_branch sr) (login u @ '':'' @ br))
                        st)) \<and>
         new_calls st (snd (create_or_edit_pr E t b sr u br st)) =
           (case body p of
              None \<Rightarrow> [GetPulls (full_name sr) (default_branch sr) (login u @ '':'' @ br)]
            | Some text \<Rightarrow>
                if contains marker text
                then [GetPulls (full_name sr) (default_branch sr) (login u @ '':'' @ br),
                      PullEdit (number p) t b]
                else [GetPulls (full_name sr) (default_branch sr) (login u @ '':'' @ br)])"
proof (intro conjI)
  have single: "get_pulls_out (E\<lparr>get_pulls_out := \<lambda>_ _ _ _. Some [p]\<rparr>) (calls st)
      (full_name sr) (default_branch sr) (login u @ '':'' @ br) = Some (p # [])"
    by simp
  show "create_or_edit_pr E t b sr u br st =
      create_or_edit_pr (E\<lparr>get_pulls_out := \<lambda>_ _ _ _. Some [p]\<rparr>) t b sr u br st"
    unfolding create_or_edit_pr_Cons [OF assms] create_or_edit_pr_Cons [OF single]
    by (simp add: pull_edit_def split: option.splits)
  show "create_or_edit_pr E t b sr u br st =
           (case body p of
              None \<Rightarrow>
                (Inl TypeError,
                 record_call
                   (GetPulls (full_name sr) (default_branch sr) (login u @ '':'' @ br)) st)
            | Some text \<Rightarrow>
                if contains marker text
                then pull_edit E p t b
                       (record_call
                          (GetPulls (full_name sr) (default_branch sr) (login u @ '':'' @ br)) st)
                else (Inl (PRModified pr_modified_message),
                      record_call
                        (GetPulls (full_name sr) (default_branch sr) (login u @ '':'' @ br))
                        st))"
    by (rule create_or_edit_pr_Cons [OF assms])
  show "new_calls st (snd (create_or_edit_pr E t b sr u br st)) =
           (case body p of
              None \<Rightarrow> [GetPulls (full_name sr) (default_branch sr) (login u @ '':'' @ br)]
            | Some text \<Rightarrow>
                if contains marker text
                then [GetPulls (full_name sr) (default_branch sr) (login u @ '':'' @ br),
                      PullEdit (number p) t b]
                else [GetPulls (full_name sr) (default_branch sr) (login u @ '':'' @ br)])"
    by (rule create_or_edit_pr_calls_Cons [OF assms])
qed

text \<open>The theorem at a listing of two pull requests, the first carrying the marker.\<close>

theorem first_listed_pull_decides_witness:
  "create_or_edit_pr (fixed_env weather_rows (git_table [] []) [generated_pull, edited_pull])
      ''Upgrade skill-weather'' ''new body'' skills_repo_example dev ''upgrade/skill-weather'' start =
   create_or_edit_pr (fixed_env weather_rows (git_table [] []) [generated_pull])
      ''Upgrade skill-weather'' ''new body'' skills_repo_example dev ''upgrade/skill-weather'' start \<and>
   new_calls start
     (snd (create_or_edit_pr
        (fixed_env weather_rows (git_table [] []) [generated_pull, edited_pull])
        ''Upgrade skill-weather'' ''new body'' skills_repo_example dev
        ''upgrade/skill-weather'' start)) =
     [GetPulls ''MycroftAI/mycroft-skills'' ''master'' ''dev:upgrade/skill-weather'',
      PullEdit 7 ''Upgrade skill-weather'' ''new body'']"
proof -
  let ?E = "fixed_env weather_rows (git_table [] []) [generated_pull, edited_pull]"
  have l: "get_pulls_out ?E (calls start) (full_name skills_repo_example)
      (default_branch skills_repo_example) (login dev @ '':'' @ ''upgrade/skill-weather'')
      = Some (generated_pull # [edited_pull])"
    by (simp add: fixed_env_def)
  have s: "?E\<lparr>get_pulls_out := \<lambda>_ _ _ _. Some [generated_pull]\<rparr>
      = fixed_env weather_rows (git_table [] []) [generated_pull]"
    by (simp add: fixed_env_def)
  have n: "number generated_pull = 7"
    by (simp add: generated_pull_def)
  from first_listed_pull_decides [OF l, of "''Upgrade skill-weather''" "''new body''"]
  have a: "create_or_edit_pr ?E ''Upgrade skill-weather'' ''new body'' skills_repo_example dev
        ''upgrade/skill-weather'' start =
      create_or_edit_pr (?E\<lparr>get_pulls_out := \<lambda>_ _ _ _. Some [generated_pull]\<rparr>)
        ''Upgrade skill-weather'' ''new body'' skills_repo_example dev
        ''upgrade/skill-weather'' start"
    and c: "new_calls start
        (snd (create_or_edit_pr ?E ''Upgrade skill-weather'' ''new body'' skills_repo_example
           dev ''upgrade/skill-weather'' start)) =
      (case body generated_pull of
         None \<Rightarrow> [GetPulls (full_name skills_repo_example) (default_branch skills_repo_example)
               (login dev @ '':'' @ ''upgrade/skill-weather'')]
       | Some text \<Rightarrow>
          if contains marker text
          then [GetPulls (full_name skills_repo_example) (default_branch skills_repo_example)
               (login dev @ '':'' @ ''upgrade/skill-weather''),
             PullEdit (number generated_pull) ''Upgrade skill-weather'' ''new body'']
          else [GetPulls (full_name skills_repo_example) (default_branch skills_repo_example)
               (login dev @ '':'' @ ''upgrade/skill-weather'')])"
    by blast+
  have g1: "create_or_edit_pr ?E ''Upgrade skill-weather'' ''new body'' skills_repo_example dev
        ''upgrade/skill-weather'' start =
      create_or_edit_pr (fixed_env weather_rows (git_table [] []) [generated_pull])
        ''Upgrade skill-weather'' ''new body'' skills_repo_example dev
        ''upgrade/skill-weather'' start"
    using a by (simp only: s)
  have g2: "new_calls start
        (snd (create_or_edit_pr ?E ''Upgrade skill-weather'' ''new body'' skills_repo_example
           dev ''upgrade/skill-weather'' start)) =
     [GetPulls ''MycroftAI/mycroft-skills'' ''master'' ''dev:upgrade/skill-weather'',
      PullEdit 7 ''Upgrade skill-weather'' ''new body'']"
    using c unfolding body_generated_pull
    apply (simp only: option.case marker_in_generated if_True)
    apply (simp add: n skills_repo_example_def dev_def)
    done
  from g1 g2 show ?thesis by (rule conjI)
qed

subsection \<open>The pull-request message\<close>

lemma split_on_empty: "split_on c [] = [[]]"
  by simp

lemma split_on_no_sep: "c \<notin> set s \<Longrightarrow> split_on c s = [s]"
  by (induction s) auto

lemma split_on_append_sep:
  "c \<notin> set s \<Longrightarrow> split_on c (s @ c # r) = s # split_on c r"
  by (induction s) auto

text \<open>
  Splitting undoes joining for a non-empty list of lines: when git prints one or more
  shas, one per line, the generator of \<^verbatim>\<open>create_pr_message\<close> iterates over exactly those.
\<close>

lemma split_on_join_with:
  "shas \<noteq> [] \<Longrightarrow> \<forall>s \<in> set shas. c \<notin> set s \<Longrightarrow> split_on c (join_with [c] shas) = shas"
proof (induction "[c]" shas rule: join_with.induct)
  case 1
  then show ?case by simp
next
  case (2 x)
  then show ?case by (simp add: split_on_no_sep)
next
  case (3 x y ys)
  then show ?case by (simp add: split_on_append_sep)
qed

lemma create_pr_message_empty:
  assumes "git_out E (calls st) sg (RevListAncestryPath (sha skill @ ''..'' @ ''HEAD'')) = Some []"
  shows "create_pr_message E skill sg repo st =
     (case git_out E
             (calls st @ [Git sg (RevListAncestryPath (sha skill @ ''..'' @ ''HEAD''))])
             sg (ShowSubject []) of
        None \<Rightarrow>
          (Inl GitCommandError,
           st\<lparr>calls := calls st @
                  [Git sg (RevListAncestryPath (sha skill @ ''..'' @ ''HEAD'')),
                   Git sg (ShowSubject [])]\<rparr>)
      | Some subject \<Rightarrow>
          (case get_commit_out E
                  (calls st @
                     [Git sg (RevListAncestryPath (sha skill @ ''..'' @ ''HEAD'')),
                      Git sg (ShowSubject [])])
                  (full_name repo) [] of
             None \<Rightarrow> Inl GithubException
           | Some link \<Rightarrow>
               Inr (upgrade_title (name skill),
                    pr_header (name skill) @ bullet subject link @ pr_footer (version E)),
           st\<lparr>calls := calls st @
                  [Git sg (RevListAncestryPath (sha skill @ ''..'' @ ''HEAD'')),
                   Git sg (ShowSubject []),
                   GetCommit (full_name repo) []]\<rparr>))"
  using assms
  by (simp add: create_pr_message_def seq_def git_def request_def ret_def record_call_def
      split: option.splits)

lemma create_pr_message_empty_example:
  "create_pr_message (fixed_env weather_rows (git_table [] []) []) weather
      ''/opt/mycroft/.skills-repo/skill-weather'' skill_repo_example start =
     (Inr (''Upgrade skill-weather'', empty_rev_list_body),
      start\<lparr>calls :=
        [Git ''/opt/mycroft/.skills-repo/skill-weather'' (RevListAncestryPath ''abc123..HEAD''),
         Git ''/opt/mycroft/.skills-repo/skill-weather'' (ShowSubject []),
         GetCommit ''dev/skill-weather'' []]\<rparr>)"
proof -
  let ?E = "fixed_env weather_rows (git_table [] []) []"
  have "git_out ?E (calls start) ''/opt/mycroft/.skills-repo/skill-weather''
      (RevListAncestryPath (sha weather @ ''..'' @ ''HEAD'')) = Some []"
    by (simp add: fixed_env_def)
  from create_pr_message_empty [OF this, of skill_repo_example] show ?thesis
    by (simp add: fixed_env_def weather_def skill_repo_example_def start_def
        upgrade_title_def pr_header_def pr_footer_def bullet_def empty_rev_list_body_def)
qed

lemma create_pr_message_scenario:
  "create_pr_message (fixed_env weather_rows scenario_table []) weather
      ''/opt/mycroft/.skills-repo/skill-weather'' skill_repo_example start =
     (Inr (''Upgrade skill-weather'', scenario_body),
      start\<lparr>calls :=
        [Git ''/opt/mycroft/.skills-repo/skill-weather'' (RevListAncestryPath ''abc123..HEAD''),
         Git ''/opt/mycroft/.skills-repo/skill-weather'' (ShowSubject ''def456''),
         GetCommit ''dev/skill-weather'' ''def456'',
         Git ''/opt/mycroft/.skills-repo/skill-weather'' (ShowSubject ''987fff''),
         GetCommit ''dev/skill-weather'' ''987fff'']\<rparr>)"
  by (simp add: create_pr_message_def seq_def git_def request_def ret_def record_call_def
      fixed_env_def weather_def skill_repo_example_def start_def
      upgrade_title_def pr_header_def pr_footer_def bullet_def scenario_body_def)


text \<open>
  Claim C10.  When the rev-list prints nothing, splitting its output at newlines gives one
  element, the empty string, and \<^verbatim>\<open>create_pr_message\<close> runs its generator once for it: it
  asks git for the subject of the empty sha and GitHub for the commit of the empty sha,
  and, when both answer, the body it returns holds exactly one bullet,
  \<^verbatim>\<open> - [<subject>](<link>)\<close> made of those two answers, between the header and the footer.
\<close>

theorem empty_rev_list_gives_one_bullet:
  assumes "git_out E (calls st) sg (RevListAncestryPath (sha skill @ ''..'' @ ''HEAD'')) = Some []"
  shows "split_on CHR ''\<newline>'' [] = [[]] \<and>
     create_pr_message E skill sg repo st =
     (case git_out E
             (calls st @ [Git sg (RevListAncestryPath (sha skill @ ''..'' @ ''HEAD''))])
             sg (ShowSubject []) of
        None \<Rightarrow>
          (Inl GitCommandError,
           st\<lparr>calls := calls st @
                  [Git sg (RevListAncestryPath (sha skill @ ''..'' @ ''HEAD'')),
                   Git sg (ShowSubject [])]\<rparr>)
      | Some subject \<Rightarrow>
          (case get_commit_out E
                  (calls st @
                     [Git sg (RevListAncestryPath (sha skill @ ''..'' @ ''HEAD'')),
                      Git sg (ShowSubject [])])
                  (full_name repo) [] of
             None \<Rightarrow> Inl GithubException
           | Some link \<Rightarrow>
               Inr (''Upgrade '' @ name skill,
                    ''This upgrades '' @ name skill @
                    '' to include the following new commits:\<newline>\<newline>'' @
                    '' - ['' @ subject @ '']('' @ link @ '')'' @
                    ''\<newline>\<newline><sub>Created with [mycroft-skills-kit]'' @
                    ''(https://github.com/mycroftai/mycroft-skills-kit) v'' @ version E @
                    ''</sub>''),
           st\<lparr>calls := calls st @
                  [Git sg (RevListAncestryPath (sha skill @ ''..'' @ ''HEAD'')),
                   Git sg (ShowSubject []),
                   GetCommit (full_name repo) []]\<rparr>))"
proof (rule conjI)
  show "split_on CHR ''\<newline>'' [] = [[]]"
    by (rule split_on_empty)
  show "create_pr_message E skill sg repo st =
     (case git_out E
             (calls st @ [Git sg (RevListAncestryPath (sha skill @ ''..'' @ ''HEAD''))])
             sg (ShowSubject []) of
        None \<Rightarrow>
          (Inl GitCommandError,
           st\<lparr>calls := calls st @
                  [Git sg (RevListAncestryPath (sha skill @ ''..'' @ ''HEAD'')),
                   Git sg (ShowSubject [])]\<rparr>)
      | Some subject \<Rightarrow>
          (case get_commit_out E
                  (calls st @
                     [Git sg (RevListAncestryPath (sha skill @ ''..'' @ ''HEAD'')),
                      Git sg (ShowSubject [])])
                  (full_name repo) [] of
             None \<Rightarrow> Inl GithubException
           | Some link \<Rightarrow>
               Inr (''Upgrade '' @ name skill,
                    ''This upgrades '' @ name skill @
                    '' to include the following new commits:\<newline>\<newline>'' @
                    '' - ['' @ subject @ '']('' @ link @ '')'' @
                    ''\<newline>\<newline><sub>Created with [mycroft-skills-kit]'' @
                    ''(https://github.com/mycroftai/mycroft-skills-kit) v'' @ version E @
                    ''</sub>''),
           st\<lparr>calls := calls st @
                  [Git sg (RevListAncestryPath (sha skill @ ''..'' @ ''HEAD'')),
                   Git sg (ShowSubject []),
                   GetCommit (full_name repo) []]\<rparr>))"
    unfolding create_pr_message_empty [OF assms]
    by (simp add: upgrade_title_def pr_header_def bullet_def pr_footer_def
        split: option.splits)
qed

text \<open>The theorem at a git that prints nothing for the rev-list and accepts the empty sha.\<close>

theorem empty_rev_list_gives_one_bullet_witness:
  "git_out (fixed_env weather_rows (git_table [] []) []) (calls start)
      ''/opt/mycroft/.skills-repo/skill-weather'' (RevListAncestryPath ''abc123..HEAD'') = Some [] \<and>
   create_pr_message (fixed_env weather_rows (git_table [] []) []) weather
      ''/opt/mycroft/.skills-repo/skill-weather'' skill_repo_example start =
     (Inr (''Upgrade skill-weather'',
           ''This upgrades skill-weather to include the following new commits:\<newline>\<newline>'' @
           '' - [](https://github.com/dev/skill-weather/commit/)'' @
           ''\<newline>\<newline><sub>Created with [mycroft-skills-kit]'' @
           ''(https://github.com/mycroftai/mycroft-skills-kit) v0.3.9</sub>''),
      start\<lparr>calls :=
        [Git ''/opt/mycroft/.skills-repo/skill-weather'' (RevListAncestryPath ''abc123..HEAD''),
         Git ''/opt/mycroft/.skills-repo/skill-weather'' (ShowSubject []),
         GetCommit ''dev/skill-weather'' []]\<rparr>)"
proof -
  let ?E = "fixed_env weather_rows (git_table [] []) []"
  have r: "git_out ?E (calls start) ''/opt/mycroft/.skills-repo/skill-weather''
      (RevListAncestryPath (sha weather @ ''..'' @ ''HEAD'')) = Some []"
    by (simp add: fixed_env_def)
  from empty_rev_list_gives_one_bullet [OF r, of skill_repo_example] r show ?thesis
    by (simp add: fixed_env_def weather_def skill_repo_example_def start_def)
qed

text \<open>
  Claim C7, at the input where the code departs from it.  The rev-list from the recorded
  sha to HEAD lists no commit, so the claim's body has no bullet line; the code returns a
  body with one bullet, whose subject and link are those of the empty sha.  (For a
  rev-list of one or more commits, \<open>split_on_join_with\<close> shows that the generator runs
  once per commit, and \<open>create_pr_message_scenario\<close> evaluates the spec's scenario.)
\<close>

theorem bullet_for_no_commit:
  "git_out (fixed_env weather_rows (git_table [] []) []) []
      ''/opt/mycroft/.skills-repo/skill-weather'' (RevListAncestryPath ''abc123..HEAD'') = Some [] \<and>
   fst (create_pr_message (fixed_env weather_rows (git_table [] []) []) weather
      ''/opt/mycroft/.skills-repo/skill-weather'' skill_repo_example start) =
     Inr (''Upgrade skill-weather'',
          ''This upgrades skill-weather to include the following new commits:\<newline>\<newline>'' @
          '' - [](https://github.com/dev/skill-weather/commit/)'' @
          ''\<newline>\<newline><sub>Created with [mycroft-skills-kit]'' @
          ''(https://github.com/mycroftai/mycroft-skills-kit) v0.3.9</sub>'')"
  by (simp add: create_pr_message_empty_example empty_rev_list_body_def) (simp add: fixed_env_def)

text \<open>
  Claim C8.  Every body that \<^verbatim>\<open>create_pr_message\<close> returns contains the marker that
  \<^verbatim>\<open>create_or_edit_pr\<close> looks for.  So when a later \<^verbatim>\<open>create_or_edit_pr\<close>, in any
  environment, finds a pull request with that body first in its listing, it takes the
  edit path, and it does not raise \<^verbatim>\<open>PRModified\<close>.
\<close>

theorem generated_body_is_editable:
  assumes "create_pr_message E skill sg repo st = (Inr (t, b), st')"
  shows "contains marker b \<and>
     (\<forall>E' st2 sr u br p rest t' b'.
        get_pulls_out E' (calls st2) (full_name sr) (default_branch sr)
          (login u @ '':'' @ br) = Some (p # rest) \<and> body p = Some b \<longrightarrow>
        create_or_edit_pr E' t' b' sr u br st2 =
          pull_edit E' p t' b'
            (record_call
               (GetPulls (full_name sr) (default_branch sr) (login u @ '':'' @ br)) st2) \<and>
        (\<forall>msg. fst (create_or_edit_pr E' t' b' sr u br st2) \<noteq> Inl (PRModified msg)))"
proof (intro conjI allI impI)
  show m: "contains marker b"
    using assms by (rule create_pr_message_marker)
  fix E' :: env and st2 :: state and sr :: repository and u :: github_user
    and br :: string and p :: pull_request and rest :: "pull_request list"
    and t' b' msg :: string
  assume a: "get_pulls_out E' (calls st2) (full_name sr) (default_branch sr)
      (login u @ '':'' @ br) = Some (p # rest) \<and> body p = Some b"
  then have l: "get_pulls_out E' (calls st2) (full_name sr) (default_branch sr)
      (login u @ '':'' @ br) = Some (p # rest)"
    and "body p = Some b"
    by simp_all
  with m show e: "create_or_edit_pr E' t' b' sr u br st2 =
      pull_edit E' p t' b'
        (record_call
           (GetPulls (full_name sr) (default_branch sr) (login u @ '':'' @ br)) st2)"
    by (simp add: create_or_edit_pr_Cons)
  show "fst (create_or_edit_pr E' t' b' sr u br st2) \<noteq> Inl (PRModified msg)"
    unfolding e by (rule pull_edit_not_modified)
qed

text \<open>The theorem at the spec's scenario: the body generated for the two new commits,
  found on the existing pull request by the next run, is replaced.\<close>

theorem generated_body_is_editable_witness:
  "contains marker scenario_body \<and>
   create_or_edit_pr
      (fixed_env weather_rows scenario_table [generated_pull\<lparr>body := Some scenario_body\<rparr>])
      ''Upgrade skill-weather'' ''new body'' skills_repo_example dev ''upgrade/skill-weather'' start =
     (Inr (generated_pull\<lparr>body := Some ''new body''\<rparr>),
      start\<lparr>calls := [GetPulls ''MycroftAI/mycroft-skills'' ''master''
                         ''dev:upgrade/skill-weather'',
                       PullEdit 7 ''Upgrade skill-weather'' ''new body'']\<rparr>)"
proof -
  let ?E = "fixed_env weather_rows scenario_table [generated_pull\<lparr>body := Some scenario_body\<rparr>]"
  have l: "get_pulls_out ?E (calls start) (full_name skills_repo_example)
      (default_branch skills_repo_example) (login dev @ '':'' @ ''upgrade/skill-weather'')
      = Some (generated_pull\<lparr>body := Some scenario_body\<rparr> # []) \<and>
      body (generated_pull\<lparr>body := Some scenario_body\<rparr>) = Some scenario_body"
    by (simp add: fixed_env_def)
  from generated_body_is_editable [OF create_pr_message_scenario] l
  have m: "contains marker scenario_body"
    and e: "create_or_edit_pr ?E ''Upgrade skill-weather'' ''new body'' skills_repo_example dev
        ''upgrade/skill-weather'' start =
      pull_edit ?E (generated_pull\<lparr>body := Some scenario_body\<rparr>) ''Upgrade skill-weather''
        ''new body''
        (record_call
           (GetPulls (full_name skills_repo_example) (default_branch skills_repo_example)
              (login dev @ '':'' @ ''upgrade/skill-weather'')) start)"
    by blast+
  have "create_or_edit_pr ?E ''Upgrade skill-weather'' ''new body'' skills_repo_example dev
        ''upgrade/skill-weather'' start =
     (Inr (generated_pull\<lparr>body := Some ''new body''\<rparr>),
      start\<lparr>calls := [GetPulls ''MycroftAI/mycroft-skills'' ''master''
                         ''dev:upgrade/skill-weather'',
                       PullEdit 7 ''Upgrade skill-weather'' ''new body'']\<rparr>)"
    unfolding e
    by (simp add: pull_edit_def fixed_env_def record_call_def generated_pull_def
        skills_repo_example_def dev_def start_def)
  with m show ?thesis by (rule conjI)
qed

subsection \<open>Following a run through its steps\<close>

lemma never_already_updated_seq:
  assumes "never_already_updated m" and "\<And>x. never_already_updated (f x)"
  shows "never_already_updated (seq m f)"
  using assms
  by (auto simp: never_already_updated_def seq_def split: prod.splits sum.splits)
    (metis fst_conv)+

lemma never_already_updated_ret: "never_already_updated (ret x)"
  by (simp add: never_already_updated_def ret_def)

lemma never_already_updated_git: "never_already_updated (git E d c)"
  by (simp add: never_already_updated_def git_def split: option.splits)

lemma never_already_updated_effect: "never_already_updated (effect c)"
  by (simp add: never_already_updated_def effect_def)

lemma never_already_updated_request: "never_already_updated (request c a)"
  by (simp add: never_already_updated_def request_def split: option.splits)

lemma never_already_updated_suppress:
  "never_already_updated m \<Longrightarrow> never_already_updated (suppress_git_error m)"
  by (auto simp: never_already_updated_def suppress_git_error_def
      split: prod.splits sum.splits exn.splits) (metis fst_conv)+

lemma never_already_updated_except:
  "never_already_updated m \<Longrightarrow> never_already_updated h \<Longrightarrow>
   never_already_updated (except_git_error m h)"
  by (auto simp: never_already_updated_def except_git_error_def
      split: prod.splits sum.splits exn.splits) (metis fst_conv)+

lemma never_already_updated_case_prod:
  "(\<And>a b. never_already_updated (f a b)) \<Longrightarrow> never_already_updated (case_prod f x)"
  by (cases x) simp

lemmas never_already_updated_intros =
  never_already_updated_seq never_already_updated_ret never_already_updated_git
  never_already_updated_effect never_already_updated_request never_already_updated_suppress
  never_already_updated_except never_already_updated_case_prod

lemma never_already_updated_find_submodule_path:
  "never_already_updated (find_submodule_path E skill)"
  by (simp add: never_already_updated_def find_submodule_path_def raise_def ret_def
      split: option.splits)

lemma never_already_updated_submodule_name:
  "never_already_updated (submodule_name E entry)"
  by (simp add: never_already_updated_def submodule_name_def submodule_name_func_def
      raise_def ret_def split: option.splits)

lemma never_already_updated_bullets: "never_already_updated (bullets E sg repo shas)"
  by (induction shas) (simp_all add: never_already_updated_intros)

lemma never_already_updated_create_or_edit_pr:
  "never_already_updated (create_or_edit_pr E t b sr u br)"
  unfolding create_or_edit_pr_def
  by (rule never_already_updated_seq [OF never_already_updated_request])
    (simp add: never_already_updated_def request_def pull_edit_def raise_def
      split: list.splits option.splits)

lemma never_already_updated_perform_publish:
  "never_already_updated (perform_publish E skill rg sg ub)"
  unfolding perform_publish_def setup_fork_def push_to_fork_def load_skill_repo_def
    create_pr_message_def
  by (intro never_already_updated_intros never_already_updated_bullets
      never_already_updated_create_or_edit_pr)

lemma quiet_seq:
  assumes "quiet m" and "\<And>x. quiet (f x)"
  shows "quiet (seq m f)"
  unfolding quiet_def
proof
  fix st
  from assms(1) obtain cs where m: "calls (snd (m st)) = calls st @ cs" "filter publishes cs = []"
    unfolding quiet_def by blast
  show "\<exists>cs. calls (snd (seq m f st)) = calls st @ cs \<and> filter publishes cs = []"
  proof (cases "m st")
    case (Pair r st1)
    show ?thesis
    proof (cases r)
      case (Inl e)
      with Pair m show ?thesis by (auto simp: seq_def)
    next
      case (Inr x)
      from assms(2) [of x] obtain ds
        where f: "calls (snd (f x st1)) = calls st1 @ ds" "filter publishes ds = []"
        unfolding quiet_def by blast
      from Pair Inr m f have "calls (snd (seq m f st)) = calls st @ (cs @ ds)"
        by (simp add: seq_def)
      moreover from m f have "filter publishes (cs @ ds) = []" by simp
      ultimately show ?thesis by blast
    qed
  qed
qed

lemma quiet_ret: "quiet (ret x)"
  by (simp add: quiet_def ret_def)

lemma quiet_git: "\<not> publishes (Git d c) \<Longrightarrow> quiet (git E d c)"
  by (simp add: quiet_def git_def record_call_def split: option.splits)

lemma quiet_effect: "\<not> publishes c \<Longrightarrow> quiet (effect c)"
  by (simp add: quiet_def effect_def record_call_def)

lemma quiet_suppress: "quiet m \<Longrightarrow> quiet (suppress_git_error m)"
  unfolding quiet_def suppress_git_error_def
  by (rule allI, erule_tac x = st in allE)
    (auto split: prod.splits sum.splits exn.splits)

lemma quiet_except:
  assumes "quiet m" and "quiet h"
  shows "quiet (except_git_error m h)"
  unfolding quiet_def
proof
  fix st
  from assms(1) obtain cs where m: "calls (snd (m st)) = calls st @ cs" "filter publishes cs = []"
    unfolding quiet_def by blast
  show "\<exists>cs. calls (snd (except_git_error m h st)) = calls st @ cs \<and> filter publishes cs = []"
  proof (cases "m st")
    case (Pair r st1)
    from assms(2) obtain ds
      where h: "calls (snd (h st1)) = calls st1 @ ds" "filter publishes ds = []"
      unfolding quiet_def by blast
    from Pair m h have "calls (snd (except_git_error m h st)) = calls st @ cs \<or>
        calls (snd (except_git_error m h st)) = calls st @ (cs @ ds)"
      by (auto simp: except_git_error_def split: sum.splits exn.splits)
    moreover from m h have "filter publishes (cs @ ds) = []" by simp
    ultimately show ?thesis using m(2) by blast
  qed
qed

lemma quiet_case_prod: "(\<And>a b. quiet (f a b)) \<Longrightarrow> quiet (case_prod f x)"
  by (cases x) simp

lemma quiet_find_submodule_path: "quiet (find_submodule_path E skill)"
  by (simp add: quiet_def find_submodule_path_def raise_def ret_def split: option.splits)

lemma quiet_submodule_name: "quiet (submodule_name E entry)"
  by (simp add: quiet_def submodule_name_def submodule_name_func_def raise_def ret_def
      split: option.splits)

lemmas quiet_intros =
  quiet_seq quiet_ret quiet_git quiet_effect quiet_suppress quiet_except quiet_case_prod
  quiet_find_submodule_path quiet_submodule_name

lemma quiet_local_upgrade_until_diff: "quiet (local_upgrade_until_diff E skill rg sg)"
  unfolding local_upgrade_until_diff_def local_upgrade_sync_def local_upgrade_branch_def
  by (intro quiet_intros) simp_all

lemma quiet_upgrade_until_diff: "quiet (upgrade_until_diff E entry)"
  unfolding upgrade_until_diff_def upgrade_sync_def checkout_branch_def skill_data_repo_git_def
  by (intro quiet_intros) simp_all

lemma quiet_perform_until_diff: "quiet (perform_until_diff E skill)"
  unfolding perform_until_diff_def load_git_repos_def
  by (intro quiet_intros quiet_local_upgrade_until_diff) simp_all

lemma never_already_updated_local_upgrade_until_diff:
  "never_already_updated (local_upgrade_until_diff E skill rg sg)"
  unfolding local_upgrade_until_diff_def local_upgrade_sync_def local_upgrade_branch_def
  by (intro never_already_updated_intros)

lemma never_already_updated_upgrade_until_diff:
  "never_already_updated (upgrade_until_diff E entry)"
  unfolding upgrade_until_diff_def upgrade_sync_def checkout_branch_def skill_data_repo_git_def
  by (intro never_already_updated_intros never_already_updated_submodule_name)

lemma never_already_updated_perform_until_diff:
  "never_already_updated (perform_until_diff E skill)"
  unfolding perform_until_diff_def load_git_repos_def
  by (intro never_already_updated_intros never_already_updated_find_submodule_path
      never_already_updated_local_upgrade_until_diff)

lemma perform_local_upgrade_from_diff:
  "perform_local_upgrade E skill rg sg =
     seq (local_upgrade_until_diff E skill rg sg) (\<lambda>_. local_upgrade_commit E skill rg sg)"
  by (simp add: perform_local_upgrade_steps local_upgrade_until_diff_def seq_assoc)

lemma upgrade_from_diff:
  "upgrade E entry =
     seq (upgrade_until_diff E entry) (\<lambda>skill_module. upgrade_commit E entry skill_module)"
  by (simp add: upgrade_steps upgrade_until_diff_def seq_assoc seq_ret)

lemma seq_case_prod:
  "seq (case x of (a, b) \<Rightarrow> g a b) h = (case x of (a, b) \<Rightarrow> seq (g a b) h)"
  by (cases x) simp

lemma perform_from_diff:
  "perform E skill =
     seq (perform_until_diff E skill) (\<lambda>(rg, sg).
     seq (local_upgrade_commit E skill rg sg) (\<lambda>upgrade_branch.
     perform_publish E skill rg sg upgrade_branch))"
  by (simp add: perform_def perform_until_diff_def perform_publish_def
      perform_local_upgrade_from_diff seq_assoc seq_ret seq_case_prod)

subsection \<open>The diff check\<close>

lemma seq_already_updated_iff:
  assumes "never_already_updated m"
  shows "(\<exists>msg. fst (seq m f st) = Inl (AlreadyUpdated msg)) \<longleftrightarrow>
         (\<exists>x st1. m st = (Inr x, st1) \<and> (\<exists>msg. fst (f x st1) = Inl (AlreadyUpdated msg)))"
proof (cases "m st")
  case (Pair r st1)
  show ?thesis
  proof (cases r)
    case (Inl e)
    with Pair assms have "\<forall>msg. e \<noteq> AlreadyUpdated msg"
      by (auto simp: never_already_updated_def dest: spec [of _ st])
    with Pair Inl show ?thesis
      by (simp add: seq_def)
  next
    case (Inr x)
    with Pair show ?thesis
      by (simp add: seq_def)
  qed
qed

lemma quiet_calls:
  assumes "quiet m" and "m st = (r, st1)"
  shows "\<exists>cs. calls st1 = calls st @ cs \<and> filter publishes cs = []"
  using assms unfolding quiet_def by (metis snd_conv)

lemma local_upgrade_commit_already_updated_iff:
  "(\<exists>msg. fst (local_upgrade_commit E skill rg sg st) = Inl (AlreadyUpdated msg)) \<longleftrightarrow>
   git_out E (calls st) rg (Diff sg) = Some []"
  by (auto simp: local_upgrade_commit_def seq_def git_def raise_def ret_def
      split: option.splits if_splits)

lemma local_upgrade_commit_already_updated_calls:
  "fst (local_upgrade_commit E skill rg sg st) = Inl (AlreadyUpdated msg) \<Longrightarrow>
   calls (snd (local_upgrade_commit E skill rg sg st)) = calls st @ [Git rg (Diff sg)]"
  by (auto simp: local_upgrade_commit_def seq_def git_def raise_def ret_def record_call_def
      split: option.splits if_splits)

lemma upgrade_commit_already_updated_iff:
  "(\<exists>msg. fst (upgrade_commit E entry m st) = Inl (AlreadyUpdated msg)) \<longleftrightarrow>
   git_out E (calls st) (registry_git E) (Diff m) = Some [] \<and>
   (\<exists>l. l \<noteq> [] \<and>
        git_out E (calls st @ [Git (registry_git E) (Diff m)]) (registry_git E) (LsFiles m) = Some l)"
  by (auto simp: upgrade_commit_def seq_def git_def raise_def ret_def record_call_def
      split: option.splits if_splits)

lemma upgrade_commit_already_updated_calls:
  "fst (upgrade_commit E entry m st) = Inl (AlreadyUpdated msg) \<Longrightarrow>
   calls (snd (upgrade_commit E entry m st)) =
     calls st @ [Git (registry_git E) (Diff m), Git (registry_git E) (LsFiles m)]"
  by (auto simp: upgrade_commit_def seq_def git_def raise_def ret_def record_call_def
      split: option.splits if_splits)

lemma upgrade_already_updated_iff:
  "(\<exists>msg. fst (upgrade E entry st) = Inl (AlreadyUpdated msg)) \<longleftrightarrow>
   (\<exists>m st1. upgrade_until_diff E entry st = (Inr m, st1) \<and>
      git_out E (calls st1) (registry_git E) (Diff m) = Some [] \<and>
      (\<exists>l. l \<noteq> [] \<and>
         git_out E (calls st1 @ [Git (registry_git E) (Diff m)]) (registry_git E) (LsFiles m)
           = Some l))"
  unfolding upgrade_from_diff
    seq_already_updated_iff [OF never_already_updated_upgrade_until_diff]
    upgrade_commit_already_updated_iff ..

lemma perform_local_upgrade_already_updated_iff:
  "(\<exists>msg. fst (perform_local_upgrade E skill rg sg st) = Inl (AlreadyUpdated msg)) \<longleftrightarrow>
   (\<exists>b st1. local_upgrade_until_diff E skill rg sg st = (Inr b, st1) \<and>
      git_out E (calls st1) rg (Diff sg) = Some [])"
  unfolding perform_local_upgrade_from_diff
    seq_already_updated_iff [OF never_already_updated_local_upgrade_until_diff]
    local_upgrade_commit_already_updated_iff ..

lemma commit_then_publish_already_updated:
  assumes "fst (seq (local_upgrade_commit E skill rg sg)
                  (\<lambda>ub. perform_publish E skill rg sg ub) st) = Inl (AlreadyUpdated msg)"
  shows "fst (local_upgrade_commit E skill rg sg st) = Inl (AlreadyUpdated msg) \<and>
         snd (seq (local_upgrade_commit E skill rg sg)
                (\<lambda>ub. perform_publish E skill rg sg ub) st)
           = snd (local_upgrade_commit E skill rg sg st)"
proof (cases "local_upgrade_commit E skill rg sg st")
  case (Pair r st2)
  show ?thesis
  proof (cases r)
    case (Inl e)
    with Pair assms show ?thesis by (simp add: seq_def)
  next
    case (Inr ub)
    with Pair assms have "fst (perform_publish E skill rg sg ub st2) = Inl (AlreadyUpdated msg)"
      by (simp add: seq_def)
    with never_already_updated_perform_publish [of E skill rg sg ub] show ?thesis
      by (simp add: never_already_updated_def)
  qed
qed

lemma perform_already_updated_iff:
  "(\<exists>msg. fst (perform E skill st) = Inl (AlreadyUpdated msg)) \<longleftrightarrow>
   (\<exists>rg sg st1. perform_until_diff E skill st = (Inr (rg, sg), st1) \<and>
      git_out E (calls st1) rg (Diff sg) = Some [])"
proof -
  have "(\<exists>msg. fst (seq (local_upgrade_commit E skill rg sg)
                  (\<lambda>ub. perform_publish E skill rg sg ub) st1) = Inl (AlreadyUpdated msg))
      \<longleftrightarrow> git_out E (calls st1) rg (Diff sg) = Some []" for rg sg st1
  proof
    assume "\<exists>msg. fst (seq (local_upgrade_commit E skill rg sg)
                  (\<lambda>ub. perform_publish E skill rg sg ub) st1) = Inl (AlreadyUpdated msg)"
    then show "git_out E (calls st1) rg (Diff sg) = Some []"
      using commit_then_publish_already_updated local_upgrade_commit_already_updated_iff
      by blast
  next
    assume "git_out E (calls st1) rg (Diff sg) = Some []"
    then obtain msg where "fst (local_upgrade_commit E skill rg sg st1) = Inl (AlreadyUpdated msg)"
      using local_upgrade_commit_already_updated_iff by blast
    then have "fst (seq (local_upgrade_commit E skill rg sg)
                  (\<lambda>ub. perform_publish E skill rg sg ub) st1) = Inl (AlreadyUpdated msg)"
      by (cases "local_upgrade_commit E skill rg sg st1") (simp add: seq_def)
    then show "\<exists>msg. fst (seq (local_upgrade_commit E skill rg sg)
                  (\<lambda>ub. perform_publish E skill rg sg ub) st1) = Inl (AlreadyUpdated msg)"
      by blast
  qed
  then show ?thesis
    unfolding perform_from_diff
      seq_already_updated_iff [OF never_already_updated_perform_until_diff]
    by auto
qed

lemma upgrade_already_updated_quiet:
  assumes "fst (upgrade E entry st) = Inl (AlreadyUpdated msg)"
  shows "filter publishes (new_calls st (snd (upgrade E entry st))) = []"
proof -
  from assms have "\<exists>msg. fst (seq (upgrade_until_diff E entry)
      (\<lambda>m. upgrade_commit E entry m) st) = Inl (AlreadyUpdated msg)"
    unfolding upgrade_from_diff by blast
  then obtain m st1 msg' where u: "upgrade_until_diff E entry st = (Inr m, st1)"
    and c: "fst (upgrade_commit E entry m st1) = Inl (AlreadyUpdated msg')"
    unfolding seq_already_updated_iff [OF never_already_updated_upgrade_until_diff] by blast
  from quiet_calls [OF quiet_upgrade_until_diff u] obtain cs
    where cs: "calls st1 = calls st @ cs" "filter publishes cs = []" by blast
  from u have "snd (upgrade E entry st) = snd (upgrade_commit E entry m st1)"
    unfolding upgrade_from_diff by (simp add: seq_def)
  with upgrade_commit_already_updated_calls [OF c] cs
  have "calls (snd (upgrade E entry st)) =
      calls st @ (cs @ [Git (registry_git E) (Diff m), Git (registry_git E) (LsFiles m)])"
    by simp
  from new_calls_append [OF this] cs show ?thesis by simp
qed

lemma perform_already_updated_quiet:
  assumes "fst (perform E skill st) = Inl (AlreadyUpdated msg)"
  shows "filter publishes (new_calls st (snd (perform E skill st))) = []"
proof -
  let ?rest = "\<lambda>(rg, sg). seq (local_upgrade_commit E skill rg sg)
      (\<lambda>ub. perform_publish E skill rg sg ub)"
  from assms have "\<exists>msg. fst (seq (perform_until_diff E skill) ?rest st)
      = Inl (AlreadyUpdated msg)"
    unfolding perform_from_diff by blast
  then obtain x st1 msg' where u: "perform_until_diff E skill st = (Inr x, st1)"
    and c: "fst (?rest x st1) = Inl (AlreadyUpdated msg')"
    unfolding seq_already_updated_iff [OF never_already_updated_perform_until_diff] by blast
  obtain rg sg where x: "x = (rg, sg)" by (cases x)
  from c have c': "fst (seq (local_upgrade_commit E skill rg sg)
      (\<lambda>ub. perform_publish E skill rg sg ub) st1) = Inl (AlreadyUpdated msg')"
    by (simp add: x)
  from quiet_calls [OF quiet_perform_until_diff u] obtain cs
    where cs: "calls st1 = calls st @ cs" "filter publishes cs = []" by blast
  from u have "snd (perform E skill st) = snd (?rest x st1)"
    unfolding perform_from_diff by (simp add: seq_def)
  with commit_then_publish_already_updated [OF c']
  have s: "snd (perform E skill st) = snd (local_upgrade_commit E skill rg sg st1)"
    and a: "fst (local_upgrade_commit E skill rg sg st1) = Inl (AlreadyUpdated msg')"
    by (simp_all add: x)
  from local_upgrade_commit_already_updated_calls [OF a] s cs
  have "calls (snd (perform E skill st)) = calls st @ (cs @ [Git rg (Diff sg)])"
    by simp
  from new_calls_append [OF this] cs show ?thesis by simp
qed

text \<open>
  Claim C1, amended.  The two implementations test different conditions.  A run of
  \<^verbatim>\<open>SkillData.upgrade\<close> fails with \<^verbatim>\<open>AlreadyUpdated\<close> if and only if it reaches the diff
  check and there the diff of the submodule path is empty and ls-files for that path is
  not.  A run of \<^verbatim>\<open>UpgradeAction.perform_local_upgrade\<close>, and so a run of
  \<^verbatim>\<open>UpgradeAction.perform\<close>, fails with \<^verbatim>\<open>AlreadyUpdated\<close> if and only if it reaches the
  diff check and there the diff is empty; ls-files is not asked.  In both, a run that
  fails with \<^verbatim>\<open>AlreadyUpdated\<close> has made no add, commit, push or pull-request call.
\<close>

theorem already_updated_conditions:
  "((\<exists>msg. fst (upgrade E skill st) = Inl (AlreadyUpdated msg)) \<longleftrightarrow>
      (\<exists>m st1. upgrade_until_diff E skill st = (Inr m, st1) \<and>
         git_out E (calls st1) (registry_git E) (Diff m) = Some [] \<and>
         (\<exists>l. l \<noteq> [] \<and>
            git_out E (calls st1 @ [Git (registry_git E) (Diff m)]) (registry_git E) (LsFiles m)
              = Some l))) \<and>
   ((\<exists>msg. fst (perform_local_upgrade E skill rg sg st) = Inl (AlreadyUpdated msg)) \<longleftrightarrow>
      (\<exists>b st1. local_upgrade_until_diff E skill rg sg st = (Inr b, st1) \<and>
         git_out E (calls st1) rg (Diff sg) = Some [])) \<and>
   ((\<exists>msg. fst (perform E skill st) = Inl (AlreadyUpdated msg)) \<longleftrightarrow>
      (\<exists>rg sg st1. perform_until_diff E skill st = (Inr (rg, sg), st1) \<and>
         git_out E (calls st1) rg (Diff sg) = Some [])) \<and>
   (\<forall>msg. fst (upgrade E skill st) = Inl (AlreadyUpdated msg) \<longrightarrow>
      filter publishes (new_calls st (snd (upgrade E skill st))) = []) \<and>
   (\<forall>msg. fst (perform E skill st) = Inl (AlreadyUpdated msg) \<longrightarrow>
      filter publishes (new_calls st (snd (perform E skill st))) = [])"
  using upgrade_already_updated_iff [of E skill st]
    perform_local_upgrade_already_updated_iff [of E skill rg sg st]
    perform_already_updated_iff [of E skill st]
    upgrade_already_updated_quiet [of E skill st]
    perform_already_updated_quiet [of E skill st]
  by (intro conjI allI impI)

lemma git_out_fixed_env: "git_out (fixed_env rows table pulls) h = table"
  by (simp add: fixed_env_def)

lemma registry_git_fixed_env:
  "registry_git (fixed_env rows table pulls) = ''/opt/mycroft/.skills-repo''"
  by (simp add: registry_git_def fixed_env_def)

lemma name_weather: "name weather = ''skill-weather''"
  by (simp add: weather_def)

lemma perform_until_diff_example:
  "perform_until_diff (fixed_env weather_rows (git_table d l) []) weather start =
     (Inr (''/opt/mycroft/.skills-repo'', ''/opt/mycroft/.skills-repo/skill-weather''),
      start\<lparr>calls :=
        [MsmUpdate,
         Git ''/opt/mycroft/.skills-repo'' (SubmoduleUpdateInit ''skill-weather''),
         Git ''/opt/mycroft/.skills-repo'' Reset,
         Git ''/opt/mycroft/.skills-repo/skill-weather'' Fetch,
         Git ''/opt/mycroft/.skills-repo/skill-weather'' (SymbolicRef ''refs/remotes/origin/HEAD''),
         Git ''/opt/mycroft/.skills-repo/skill-weather'' (ResetHard ''refs/remotes/origin/master''),
         Git ''/opt/mycroft/.skills-repo'' (BranchDelete ''upgrade/skill-weather''),
         Git ''/opt/mycroft/.skills-repo'' (CheckoutNew ''upgrade/skill-weather'')]\<rparr>)"
  by (simp add: perform_until_diff_def load_git_repos_def find_submodule_path_def
      local_upgrade_until_diff_def local_upgrade_sync_def local_upgrade_branch_def
      name_to_path_def weather_rows_def weather_def fixed_env_def start_def path_join_def registry_git_def
      submodule_git_def
      upgrade_branch_name_def seq_def effect_def git_def ret_def suppress_git_error_def
      record_call_def)

lemma upgrade_until_diff_example:
  "upgrade_until_diff (fixed_env weather_rows (git_table d l) []) weather start =
     (Inr ''skill-weather'',
      \<lparr>calls =
        [MsmUpdate,
         Git ''/opt/mycroft/.skills-repo/skill-weather'' Fetch,
         Git ''/opt/mycroft/.skills-repo/skill-weather'' (SymbolicRef ''refs/remotes/origin/HEAD''),
         Git ''/opt/mycroft/.skills-repo/skill-weather'' (ResetHard ''refs/remotes/origin/master''),
         Git ''/opt/mycroft/.skills-repo'' (BranchDelete ''upgrade/skill-weather''),
         Git ''/opt/mycroft/.skills-repo'' (CheckoutNew ''upgrade/skill-weather'')],
       submodule_name_cell = Some ''skill-weather''\<rparr>)"
  by (simp add: upgrade_until_diff_def upgrade_sync_def checkout_branch_def
      skill_data_repo_git_def submodule_name_def submodule_name_func_def
      name_to_path_def weather_rows_def weather_def fixed_env_def start_def path_join_def registry_git_def
      submodule_git_def
      upgrade_branch_name_def seq_def effect_def git_def ret_def raise_def
      suppress_git_error_def except_git_error_def record_call_def)

text \<open>The theorem at a registry where the plugin's path is tracked and does not differ.\<close>

theorem already_updated_conditions_witness:
  "fst (upgrade (fixed_env weather_rows (git_table [] ''skill-weather'') []) weather start) =
     Inl (AlreadyUpdated (already_updated_message ''skill-weather'')) \<and>
   filter publishes (new_calls start
     (snd (upgrade (fixed_env weather_rows (git_table [] ''skill-weather'') []) weather start)))
     = [] \<and>
   fst (perform (fixed_env weather_rows (git_table [] ''skill-weather'') []) weather start) =
     Inl (AlreadyUpdated (already_updated_message ''skill-weather'')) \<and>
   filter publishes (new_calls start
     (snd (perform (fixed_env weather_rows (git_table [] ''skill-weather'') []) weather start)))
     = []"
proof -
  let ?E = "fixed_env weather_rows (git_table [] ''skill-weather'') []"
  have u: "fst (upgrade ?E weather start) =
      Inl (AlreadyUpdated (already_updated_message ''skill-weather''))"
    unfolding upgrade_from_diff
    by (simp add: seq_def upgrade_until_diff_example upgrade_commit_def git_def raise_def
        record_call_def git_out_fixed_env registry_git_fixed_env name_weather)
  have p: "fst (perform ?E weather start) =
      Inl (AlreadyUpdated (already_updated_message ''skill-weather''))"
    unfolding perform_from_diff
    by (simp add: seq_def perform_until_diff_example local_upgrade_commit_def git_def raise_def
        record_call_def git_out_fixed_env name_weather)
  from already_updated_conditions [of ?E weather start] u p show ?thesis
    by blast
qed

text \<open>
  The claim as stated fails for \<^verbatim>\<open>UpgradeAction\<close>: at a registry where the diff of the
  plugin's path is empty and ls-files prints nothing for it (the path is not tracked),
  \<^verbatim>\<open>perform_local_upgrade\<close>, and the run of \<^verbatim>\<open>perform\<close> around it, fail with
  \<^verbatim>\<open>AlreadyUpdated\<close>.
\<close>

theorem already_updated_untracked_counterexample:
  "git_out (fixed_env weather_rows (git_table [] []) [])
      (calls (snd (perform (fixed_env weather_rows (git_table [] []) []) weather start)))
      ''/opt/mycroft/.skills-repo'' (LsFiles ''/opt/mycroft/.skills-repo/skill-weather'') = Some [] \<and>
   git_out (fixed_env weather_rows (git_table [] []) [])
      (calls (snd (perform (fixed_env weather_rows (git_table [] []) []) weather start)))
      ''/opt/mycroft/.skills-repo'' (LsFiles ''skill-weather'') = Some [] \<and>
   fst (perform (fixed_env weather_rows (git_table [] []) []) weather start) =
     Inl (AlreadyUpdated (already_updated_message ''skill-weather'')) \<and>
   perform_local_upgrade (fixed_env weather_rows (git_table [] []) []) weather
      ''/opt/mycroft/.skills-repo'' ''/opt/mycroft/.skills-repo/skill-weather'' start =
     (Inl (AlreadyUpdated (already_updated_message ''skill-weather'')),
      start\<lparr>calls :=
        [Git ''/opt/mycroft/.skills-repo'' Reset,
         Git ''/opt/mycroft/.skills-repo/skill-weather'' Fetch,
         Git ''/opt/mycroft/.skills-repo/skill-weather'' (SymbolicRef ''refs/remotes/origin/HEAD''),
         Git ''/opt/mycroft/.skills-repo/skill-weather'' (ResetHard ''refs/remotes/origin/master''),
         Git ''/opt/mycroft/.skills-repo'' (BranchDelete ''upgrade/skill-weather''),
         Git ''/opt/mycroft/.skills-repo'' (CheckoutNew ''upgrade/skill-weather''),
         Git ''/opt/mycroft/.skills-repo''
           (Diff ''/opt/mycroft/.skills-repo/skill-weather'')]\<rparr>)"
proof -
  let ?E = "fixed_env weather_rows (git_table [] []) []"
  have p: "fst (perform ?E weather start) =
      Inl (AlreadyUpdated (already_updated_message ''skill-weather''))"
    unfolding perform_from_diff
    by (simp add: seq_def perform_until_diff_example local_upgrade_commit_def git_def raise_def
        record_call_def git_out_fixed_env name_weather)
  have l: "perform_local_upgrade ?E weather
      ''/opt/mycroft/.skills-repo'' ''/opt/mycroft/.skills-repo/skill-weather'' start =
     (Inl (AlreadyUpdated (already_updated_message ''skill-weather'')),
      start\<lparr>calls :=
        [Git ''/opt/mycroft/.skills-repo'' Reset,
         Git ''/opt/mycroft/.skills-repo/skill-weather'' Fetch,
         Git ''/opt/mycroft/.skills-repo/skill-weather'' (SymbolicRef ''refs/remotes/origin/HEAD''),
         Git ''/opt/mycroft/.skills-repo/skill-weather'' (ResetHard ''refs/remotes/origin/master''),
         Git ''/opt/mycroft/.skills-repo'' (BranchDelete ''upgrade/skill-weather''),
         Git ''/opt/mycroft/.skills-repo'' (CheckoutNew ''upgrade/skill-weather''),
         Git ''/opt/mycroft/.skills-repo''
           (Diff ''/opt/mycroft/.skills-repo/skill-weather'')]\<rparr>)"
    by (simp add: perform_local_upgrade_def seq_def git_def raise_def suppress_git_error_def
        record_call_def git_out_fixed_env weather_def start_def upgrade_branch_name_def)
  from p l show ?thesis
    by (simp add: git_out_fixed_env)
qed

subsection \<open>The two implementations side by side\<close>



















lemma answered_single_git: "answered E g h [Git d c] = (git_out E h d c = g d c)"
  by simp































end
